(* ===== verification/Prelude.thy ===== *)
theory Prelude
  imports Complex_Main "HOL-Library.Word"
begin

text \<open>
  Shared vocabulary of the development: the error values the service can
  raise, a bind for the error sum, the numeric conversions of Python and
  OpenCV that several components use (truncation of a float to an int,
  OpenCV's rounding of a double to the nearest integer with ties to even,
  saturation into an unsigned byte), and an indexed map over lists.
  Python floats are modelled by the exact rational value of the double
  (\<open>rat\<close>); byte channels are \<open>8 word\<close>.
\<close>

named_theorems model_simps "unfolding lemmas shared by the component proofs"

section \<open>Errors\<close>

text \<open>
  Every exception of the handlers becomes a value: \<open>ValueError\<close> the
  failure of Python's \<open>int()\<close>, \<open>KeyError\<close> a missing dictionary key,
  \<open>CvError\<close> an OpenCV assertion or argument conversion error,
  \<open>DecodeError\<close> an upload PIL cannot open, \<open>LoadError\<close> a weight file
  \<open>YOLO(path)\<close> cannot load.  Every one of them ends in HTTP 500.
\<close>

datatype error = ValueError | KeyError | CvError | DecodeError | LoadError

fun bindE :: "'e + 'a \<Rightarrow> ('a \<Rightarrow> 'e + 'b) \<Rightarrow> 'e + 'b" where
  "bindE (Inl e) f = Inl e"
| "bindE (Inr a) f = f a"

text \<open>\<open>tuple(map(f, xs))\<close>: the results in order, the first exception stops it.\<close>

fun mapE :: "('a \<Rightarrow> 'e + 'b) \<Rightarrow> 'a list \<Rightarrow> 'e + 'b list" where
  "mapE f [] = Inr []"
| "mapE f (x # xs) = bindE (f x) (\<lambda>y. bindE (mapE f xs) (\<lambda>ys. Inr (y # ys)))"

section \<open>Numeric conversions\<close>

text \<open>Python's \<open>int(x)\<close> on a float (and on a tensor element): truncation towards zero.\<close>

definition trunc_rat :: "rat \<Rightarrow> int" where
  "trunc_rat q = (if 0 \<le> q then floor q else - floor (- q))"

text \<open>
  OpenCV's \<open>cvRound\<close> (\<open>lrint\<close> in the default rounding mode): the nearest
  integer, ties to the even one.
\<close>

definition round_half_even :: "rat \<Rightarrow> int" where
  "round_half_even q =
     (let f = floor q; d = q - of_int f
      in if d < 1/2 then f
         else if 1/2 < d then f + 1
         else if even f then f else f + 1)"

text \<open>\<open>saturate_cast<uchar>\<close> of an integer: clamped into 0..255.\<close>

definition saturate_u8 :: "int \<Rightarrow> 8 word" where
  "saturate_u8 v = word_of_int (max 0 (min 255 v))"

section \<open>Lists\<close>

text \<open>\<open>for i, x in enumerate(xs)\<close> as a map: \<open>f\<close> sees the index.\<close>

fun map_idx :: "(nat \<Rightarrow> 'a \<Rightarrow> 'b) \<Rightarrow> nat \<Rightarrow> 'a list \<Rightarrow> 'b list" where
  "map_idx f i [] = []"
| "map_idx f i (x # xs) = f i x # map_idx f (Suc i) xs"

section \<open>Lemmas on errors, numbers and lists\<close>

lemma bindE_Inr_iff [model_simps]:
  "bindE m f = Inr b \<longleftrightarrow> (\<exists>a. m = Inr a \<and> f a = Inr b)"
  by (cases m) auto

lemma bindE_Inl_iff [model_simps]:
  "bindE m f = Inl e \<longleftrightarrow> (m = Inl e \<or> (\<exists>a. m = Inr a \<and> f a = Inl e))"
  by (cases m) auto

lemma bindE_assoc [simp]: "bindE (bindE m f) g = bindE m (\<lambda>x. bindE (f x) g)"
  by (cases m) auto

lemma bindE_Inr_right [simp]: "bindE m Inr = m"
  by (cases m) auto

lemma mapE_Inr_length:
  "mapE f xs = Inr ys \<Longrightarrow> length ys = length xs"
  by (induction xs arbitrary: ys) (auto simp: model_simps)

lemma mapE_Inr_iff:
  "mapE f xs = Inr ys \<longleftrightarrow> list_all2 (\<lambda>x y. f x = Inr y) xs ys"
proof (induction xs arbitrary: ys)
  case Nil
  then show ?case by auto
next
  case (Cons x xs)
  then show ?case
    by (cases ys) (auto simp: model_simps)
qed

lemma trunc_rat_of_int [simp]: "trunc_rat (of_int i) = i"
  by (simp add: trunc_rat_def)

lemma trunc_rat_0 [simp]: "trunc_rat 0 = 0"
  by (simp add: trunc_rat_def)

lemma trunc_rat_nonneg: "0 \<le> q \<Longrightarrow> trunc_rat q = floor q"
  by (simp add: trunc_rat_def)

lemma round_half_even_of_int [simp]: "round_half_even (of_int i) = i"
  by (simp add: round_half_even_def)

lemma round_half_even_0 [simp]: "round_half_even 0 = 0"
  using round_half_even_of_int [of 0] by simp

lemma round_half_even_numeral [simp]: "round_half_even (numeral k) = numeral k"
  using round_half_even_of_int [of "numeral k"] by simp

lemma round_half_even_bounds:
  "of_int (round_half_even q) - 1/2 \<le> q \<and> q \<le> of_int (round_half_even q) + 1/2"
proof -
  have "of_int (floor q) \<le> q" and "q < of_int (floor q) + 1"
    using floor_correct [of q] by simp_all
  then show ?thesis
    unfolding round_half_even_def Let_def by (simp split: if_split; linarith)
qed

lemma round_half_even_tie:
  assumes "\<bar>q - of_int (round_half_even q)\<bar> = 1/2"
  shows "even (round_half_even q)"
proof -
  define f where "f = floor q"
  have f: "of_int f \<le> q" "q < of_int f + 1" unfolding f_def by linarith+
  show ?thesis
  proof (cases "q - of_int f = 1/2")
    case True
    then show ?thesis by (simp add: round_half_even_def Let_def f_def [symmetric])
  next
    case False
    then have "round_half_even q = f \<or> round_half_even q = f + 1"
      by (auto simp: round_half_even_def Let_def f_def [symmetric])
    then show ?thesis using assms f False by (auto simp: abs_if split: if_splits)
  qed
qed

lemma round_half_even_between:
  "floor q \<le> round_half_even q \<and> round_half_even q \<le> floor q + 1"
  by (simp add: round_half_even_def Let_def)

lemma round_half_even_mono:
  assumes "q \<le> r" shows "round_half_even q \<le> round_half_even r"
proof (cases "floor q < floor r")
  case True
  then show ?thesis
    using round_half_even_between [of q] round_half_even_between [of r] by linarith
next
  case False
  with assms have f: "floor q = floor r" by (meson floor_mono not_less order_antisym)
  have d: "q - of_int (floor q) \<le> r - of_int (floor r)" using assms f by simp
  show ?thesis
    using d f unfolding round_half_even_def Let_def by (auto split: if_splits)
qed

lemma round_half_even_unsigned [simp]: "round_half_even (unsigned w) = uint w"
proof -
  have "(unsigned w :: rat) = of_int (uint w)"
    by (metis of_int_of_nat_eq of_nat_unat uint_nat)
  then show ?thesis by (simp only: round_half_even_of_int)
qed

lemma unat_saturate_u8: "unat (saturate_u8 v) = nat (max 0 (min 255 v))"
proof -
  have "0 \<le> max 0 (min 255 v)" and "max 0 (min 255 v) < 256" by auto
  then show ?thesis
    by (simp add: saturate_u8_def unat_eq_nat_uint uint_word_of_int_eq take_bit_int_eq_self)
qed

lemma uint_saturate_u8: "uint (saturate_u8 v) = max 0 (min 255 v)"
  using unat_saturate_u8 [of v] by (simp add: uint_nat)

lemma saturate_u8_uint [simp]: "saturate_u8 (uint w) = w"
proof -
  have "uint w < 256" using unsigned_less [of w, where 'a = int] by simp
  then show ?thesis by (simp add: saturate_u8_def)
qed

lemma saturate_u8_unat: "saturate_u8 (int (unat w)) = w"
  by (simp add: uint_nat [symmetric])

lemma length_map_idx [simp]: "length (map_idx f i xs) = length xs"
  by (induction xs arbitrary: i) auto

lemma nth_map_idx [simp]: "k < length xs \<Longrightarrow> map_idx f i xs ! k = f (i + k) (xs ! k)"
proof (induction xs arbitrary: i k)
  case Nil
  then show ?case by simp
next
  case (Cons x xs)
  then show ?case by (cases k) auto
qed

lemma map_idx_cong_id:
  "(\<And>k. k < length xs \<Longrightarrow> f (i + k) (xs ! k) = xs ! k) \<Longrightarrow> map_idx f i xs = xs"
  by (rule nth_equalityI) auto

lemma set_map_idx: "y \<in> set (map_idx f i xs) \<Longrightarrow> \<exists>k < length xs. y = f (i + k) (xs ! k)"
  by (auto simp: in_set_conv_nth)

end
