(* ===== verification/Registry.thy ===== *)
theory Registry
  imports Prelude
begin

text \<open>
  The model registry of the backend (src/backend/main.py, lines 20-40 and
  55-60): the table \<open>modelFiles\<close> of the five YOLOv8 weight files, the
  module globals \<open>currentModel\<close> and \<open>detector\<close>, the handler
  \<open>mudar_modelo\<close> and the model switch at the start of
  \<open>processar_imagem\<close>.  A detector object is a handle naming its weight
  file and the number of the \<open>YOLO(...)\<close> construction that made it, so
  that object identity and the number of (costly) loads are observable.
  Whether a weight file can be loaded is a parameter \<open>avail\<close>: \<open>YOLO(path)\<close>
  raises when the file is missing and cannot be downloaded.
\<close>

section \<open>The model table and the registry state\<close>

definition model_table :: "(string \<times> string) list" where
  "model_table =
     [(''yolov8n'', ''yolov8n.pt''), (''yolov8s'', ''yolov8s.pt''), (''yolov8m'', ''yolov8m.pt''),
      (''yolov8l'', ''yolov8l.pt''), (''yolov8x'', ''yolov8x.pt'')]"

text \<open>\<open>modelFiles\<close> as a dictionary and \<open>list(modelFiles.keys())\<close>, the enum of the query.\<close>

definition model_files :: "string \<Rightarrow> string option" where
  "model_files = map_of model_table"

definition model_names :: "string list" where
  "model_names = map fst model_table"

datatype handle = YOLO (weights: string) (load_no: nat)

record registry =
  current_model :: string
  detector :: handle
  loads :: nat

text \<open>\<open>YOLO(path)\<close>: a new object, or the exception of a missing weight file.\<close>

definition yolo_load :: "(string \<Rightarrow> bool) \<Rightarrow> string \<Rightarrow> registry \<Rightarrow> error + handle \<times> registry" where
  "yolo_load avail path st =
     (if avail path then Inr (YOLO path (loads st), st\<lparr>loads := Suc (loads st)\<rparr>) else Inl LoadError)"

text \<open>Lines 30-31, at import time: \<open>currentModel = "yolov8n"\<close>, \<open>detector = YOLO(modelFiles[currentModel])\<close>.\<close>

definition init_registry :: registry where
  "init_registry = \<lparr>current_model = ''yolov8n'', detector = YOLO ''yolov8n.pt'' 0, loads = 1\<rparr>"

section \<open>Query validation and the two handlers\<close>

text \<open>
  The \<open>enum=list(modelFiles.keys())\<close> of the queries (lines 34 and 45)
  only documents the parameter in the OpenAPI schema: FastAPI does not check
  it, so every string reaches the handlers.
\<close>

text \<open>\<open>modelFiles[v]\<close>: \<open>KeyError\<close> for a missing key.\<close>

definition model_file :: "string \<Rightarrow> error + string" where
  "model_file v = (case model_files v of None \<Rightarrow> Inl KeyError | Some p \<Rightarrow> Inr p)"

text \<open>
  The body of the switch, lines 36-38 and 58-60: when the requested name
  differs from \<open>currentModel\<close>, load the new detector, assign it, then
  assign \<open>currentModel\<close>.  An exception of the load leaves both globals
  as they were.  The result says whether a switch happened.
\<close>

definition switch_model :: "(string \<Rightarrow> bool) \<Rightarrow> string \<Rightarrow> registry \<Rightarrow> error + bool \<times> registry" where
  "switch_model avail v st =
     (if v \<noteq> current_model st then
        bindE (model_file v) (\<lambda>path.
        bindE (yolo_load avail path st) (\<lambda>(h, st').
          Inr (True, st'\<lparr>detector := h, current_model := v\<rparr>)))
      else Inr (False, st))"

text \<open>The response messages of \<open>mudar_modelo\<close>, lines 39-40; the accented letters are written as their UTF-8 bytes.\<close>

definition msg_changed :: "string \<Rightarrow> string" where
  "msg_changed v = ''Modelo alterado para '' @ v"

definition msg_same :: "string \<Rightarrow> string" where
  "msg_same v = ''O modelo atual j'' @ [CHR 0xC3, CHR 0xA1] @ '' '' @ [CHR 0xC3, CHR 0xA9] @ '' '' @ v"

text \<open>\<open>POST /mudar_modelo/?model_version=v\<close>, lines 33-40.\<close>

definition mudar_modelo :: "(string \<Rightarrow> bool) \<Rightarrow> string \<Rightarrow> registry \<Rightarrow> error + string \<times> registry" where
  "mudar_modelo avail v st =
     bindE (switch_model avail v st) (\<lambda>(changed, st').
       Inr (if changed then msg_changed v else msg_same v, st'))"

text \<open>The model switch of \<open>processar_imagem\<close>, lines 55-60.\<close>

definition select_model :: "(string \<Rightarrow> bool) \<Rightarrow> string \<Rightarrow> registry \<Rightarrow> error + registry" where
  "select_model avail v st = bindE (switch_model avail v st) (\<lambda>(_, st'). Inr st')"

section \<open>The registry as a state machine\<close>

text \<open>
  A request reaching the registry: a call of \<open>mudar_modelo\<close> or the switch
  at the start of \<open>processar_imagem\<close>.  A failed request (a name missing
  from \<open>modelFiles\<close>, a failed load) answers with an error and leaves the
  globals unchanged.
\<close>

datatype reg_op = MudarModelo string | ProcessarImagem string

fun reg_step :: "(string \<Rightarrow> bool) \<Rightarrow> registry \<Rightarrow> reg_op \<Rightarrow> registry" where
  "reg_step avail st (MudarModelo v) =
     (case mudar_modelo avail v st of Inl _ \<Rightarrow> st | Inr (_, st') \<Rightarrow> st')"
| "reg_step avail st (ProcessarImagem v) =
     (case select_model avail v st of Inl _ \<Rightarrow> st | Inr st' \<Rightarrow> st')"

inductive reg_reachable :: "(string \<Rightarrow> bool) \<Rightarrow> registry \<Rightarrow> bool" for avail where
  init: "reg_reachable avail init_registry"
| step: "reg_reachable avail st \<Longrightarrow> reg_reachable avail (reg_step avail st op)"

text \<open>
  The registry's invariant: the active name is one of the table, the
  detector was loaded from that name's weight file, and it is the object of
  an earlier load.
\<close>

definition reg_inv :: "registry \<Rightarrow> bool" where
  "reg_inv st \<longleftrightarrow>
     current_model st \<in> set model_names \<and>
     model_files (current_model st) = Some (weights (detector st)) \<and>
     load_no (detector st) < loads st"

text \<open>
  The abstract registry: only the active name.  Selecting a valid name makes
  it active; anything else leaves it.  Loading can fail, so the abstraction
  also takes the outcome of the load.
\<close>

definition abs_select :: "(string \<Rightarrow> bool) \<Rightarrow> string \<Rightarrow> string \<Rightarrow> string" where
  "abs_select avail v cur =
     (if v \<in> set model_names \<and> (v = cur \<or> avail (the (model_files v))) then v else cur)"

fun reg_op_name :: "reg_op \<Rightarrow> string" where
  "reg_op_name (MudarModelo v) = v"
| "reg_op_name (ProcessarImagem v) = v"

section \<open>Lemmas on the handlers\<close>

lemma model_files_Some_iff: "(\<exists>p. model_files v = Some p) \<longleftrightarrow> v \<in> set model_names"
  by (auto simp: model_files_def model_names_def model_table_def)

lemma model_file_Inr_iff: "model_file v = Inr p \<longleftrightarrow> model_files v = Some p"
  by (simp add: model_file_def split: option.splits)

lemma model_file_invalid: "v \<notin> set model_names \<Longrightarrow> model_file v = Inl KeyError"
  using model_files_Some_iff [of v] by (auto simp: model_file_def split: option.splits)

lemma model_file_valid: "v \<in> set model_names \<Longrightarrow> \<exists>p. model_file v = Inr p \<and> model_files v = Some p"
  using model_files_Some_iff [of v] by (auto simp: model_file_def)

lemma switch_model_same [simp]: "switch_model avail (current_model st) st = Inr (False, st)"
  by (simp add: switch_model_def)

lemma switch_model_other:
  assumes "v \<noteq> current_model st" "model_files v = Some p"
  shows "switch_model avail v st =
           (if avail p then Inr (True, st\<lparr>loads := Suc (loads st), detector := YOLO p (loads st), current_model := v\<rparr>)
            else Inl LoadError)"
  using assms by (simp add: switch_model_def model_file_def yolo_load_def)

lemma switch_model_Inr_other:
  "switch_model avail v st = Inr (b, st') \<Longrightarrow> v \<noteq> current_model st \<Longrightarrow>
   \<exists>p. model_files v = Some p \<and> avail p \<and>
       st' = st\<lparr>loads := Suc (loads st), detector := YOLO p (loads st), current_model := v\<rparr>"
  by (auto simp: switch_model_def model_file_def yolo_load_def model_simps split: option.splits if_splits)

lemma switch_model_inv:
  assumes "switch_model avail v st = Inr (b, st')" "reg_inv st"
  shows "reg_inv st'"
proof (cases "v = current_model st")
  case True
  then show ?thesis using assms by simp
next
  case False
  then obtain p where "model_files v = Some p"
    and "st' = st\<lparr>loads := Suc (loads st), detector := YOLO p (loads st), current_model := v\<rparr>"
    using switch_model_Inr_other [OF assms(1)] by blast
  with assms(2) model_files_Some_iff [of v] show ?thesis by (auto simp: reg_inv_def)
qed

lemma mudar_modelo_state:
  "mudar_modelo avail v st = Inr (m, st') \<longleftrightarrow>
   (\<exists>b. switch_model avail v st = Inr (b, st') \<and> m = (if b then msg_changed v else msg_same v))"
  by (auto simp: mudar_modelo_def model_simps)

lemma select_model_state:
  "select_model avail v st = Inr st' \<longleftrightarrow> (\<exists>b. switch_model avail v st = Inr (b, st'))"
  by (auto simp: select_model_def model_simps)

lemma reg_step_inv: "reg_inv st \<Longrightarrow> reg_inv (reg_step avail st op)"
  by (cases op) (auto simp: mudar_modelo_state select_model_state switch_model_inv split: sum.splits prod.splits)

lemma reg_inv_init: "reg_inv init_registry"
  by (simp add: reg_inv_def init_registry_def model_names_def model_files_def model_table_def)

lemma reg_step_switch:
  "reg_step avail st op = (case switch_model avail (reg_op_name op) st of Inl _ \<Rightarrow> st | Inr (_, st') \<Rightarrow> st')"
  by (cases op) (auto simp: mudar_modelo_def select_model_def split: sum.splits prod.splits)

lemma reg_step_invalid: "reg_op_name op \<notin> set model_names \<Longrightarrow> reg_step avail st op = st"
  by (simp add: reg_step_switch switch_model_def model_file_invalid)

lemma reg_step_mudar_current:
  assumes "v \<in> set model_names" "avail (the (model_files v))"
  shows "current_model (reg_step avail st (MudarModelo v)) = v"
proof -
  obtain p where p: "model_files v = Some p" using assms(1) model_files_Some_iff by blast
  show ?thesis
  proof (cases "v = current_model st")
    case True
    then show ?thesis using assms(1) by (simp add: mudar_modelo_def)
  next
    case False
    then show ?thesis using assms p by (simp add: mudar_modelo_def switch_model_other)
  qed
qed

section \<open>Properties of the registry\<close>

text \<open>
  C1: Re-selecting the active model is a no-op: \<open>mudar_modelo\<close> answers the message of line 40 (the model is already active, with both accented words) followed by the name and leaves the registry, the detector object and the number of loads unchanged, whether or not the weight files are available.
\<close>

theorem mudar_modelo_same_noop:
  "mudar_modelo avail (current_model st) st = Inr (msg_same (current_model st), st)"
  by (simp add: mudar_modelo_def)

theorem mudar_modelo_same_noop_witness:
  "mudar_modelo (\<lambda>_. False) ''yolov8n'' init_registry =
     Inr (''O modelo atual j'' @ [CHR 0xC3, CHR 0xA1] @ '' '' @ [CHR 0xC3, CHR 0xA9] @ '' yolov8n'', init_registry)"
  using mudar_modelo_same_noop [of "\<lambda>_. False" init_registry]
  by (simp add: init_registry_def msg_same_def)

text \<open>
  C2: Selecting another valid model whose weights load replaces the detector by a new object loaded from that model's weight file, makes the name active, counts one load, and answers with the switch message.
\<close>

theorem mudar_modelo_switch:
  assumes "v \<in> set model_names" "v \<noteq> current_model st" "avail (the (model_files v))"
  shows "mudar_modelo avail v st =
           Inr (msg_changed v, st\<lparr>current_model := v, detector := YOLO (the (model_files v)) (loads st),
                                  loads := Suc (loads st)\<rparr>)"
proof -
  obtain p where p: "model_files v = Some p" using assms(1) model_files_Some_iff by blast
  with assms show ?thesis by (simp add: mudar_modelo_def switch_model_other)
qed

theorem mudar_modelo_switch_witness:
  "''yolov8s'' \<in> set model_names \<and> ''yolov8s'' \<noteq> current_model init_registry \<and>
   (\<lambda>_. True) (the (model_files ''yolov8s'')) \<and>
   mudar_modelo (\<lambda>_. True) ''yolov8s'' init_registry =
     Inr (msg_changed ''yolov8s'', \<lparr>current_model = ''yolov8s'', detector = YOLO ''yolov8s.pt'' 1, loads = 2\<rparr>)"
proof -
  have v: "''yolov8s'' \<in> set model_names" by (simp add: model_names_def model_table_def)
  have d: "''yolov8s'' \<noteq> current_model init_registry" by (simp add: init_registry_def)
  show ?thesis
    using mudar_modelo_switch [OF v d, of "\<lambda>_. True"] v d
    by (simp add: init_registry_def model_files_def model_table_def)
qed

text \<open>
  C3: The enum of the query is not enforced, so a name outside the table reaches \<open>modelFiles[model_version]\<close> (line 37): from any registry state satisfying the invariant, it fails with \<open>KeyError\<close> (an HTTP 500, not a validation error) before anything is loaded, and the registry is unchanged.
\<close>

theorem mudar_modelo_unknown:
  "reg_inv st \<Longrightarrow> v \<notin> set model_names \<Longrightarrow>
   mudar_modelo avail v st = Inl KeyError \<and> reg_step avail st (MudarModelo v) = st"
  by (auto simp: mudar_modelo_def switch_model_def model_file_invalid reg_inv_def)

theorem mudar_modelo_unknown_witness:
  "reg_inv init_registry \<and> ''yolov9'' \<notin> set model_names \<and>
   mudar_modelo (\<lambda>_. True) ''yolov9'' init_registry = Inl KeyError \<and>
   reg_step (\<lambda>_. True) init_registry (MudarModelo ''yolov9'') = init_registry"
proof -
  have v: "''yolov9'' \<notin> set model_names" by (simp add: model_names_def model_table_def)
  show ?thesis using mudar_modelo_unknown [OF reg_inv_init v, of "\<lambda>_. True"] reg_inv_init v by simp
qed

text \<open>
  C4: In every state the registry reaches from its start by any sequence of requests, the active name is a model of the table and the detector was loaded from that name's weight file.
\<close>

theorem reg_reachable_inv: "reg_reachable avail st \<Longrightarrow> reg_inv st"
proof (induction rule: reg_reachable.induct)
  case init
  show ?case by (rule reg_inv_init)
next
  case (step st op)
  from step.IH show ?case by (rule reg_step_inv)
qed

theorem reg_reachable_inv_witness:
  "reg_reachable (\<lambda>_. True) (reg_step (\<lambda>_. True) init_registry (MudarModelo ''yolov8x'')) \<and>
   reg_inv (reg_step (\<lambda>_. True) init_registry (MudarModelo ''yolov8x''))"
proof -
  have r: "reg_reachable (\<lambda>_. True) (reg_step (\<lambda>_. True) init_registry (MudarModelo ''yolov8x''))"
    by (rule reg_reachable.step [OF reg_reachable.init])
  show ?thesis using reg_reachable_inv [OF r] r by simp
qed

text \<open>
  C5: The registry refines the abstract one: after any request the active name is the one the abstract selection gives (a valid name whose weights load, or the current one).
\<close>

theorem reg_step_refines:
  "current_model (reg_step avail st op) = abs_select avail (reg_op_name op) (current_model st)"
proof (cases "reg_op_name op \<in> set model_names")
  case False
  then show ?thesis by (simp add: reg_step_invalid abs_select_def)
next
  case True
  then obtain p where p: "model_files (reg_op_name op) = Some p" using model_files_Some_iff by blast
  with True show ?thesis
    by (cases "reg_op_name op = current_model st")
       (auto simp: reg_step_switch switch_model_other abs_select_def)
qed

end
