(* ===== verification/Raster.thy ===== *)
theory Raster
  imports Prelude
begin

text \<open>
  The image operations of OpenCV that \<open>processar_imagem\<close>
  (src/backend/main.py) calls with pixel-exact semantics: the conversion of a
  Python colour tuple to a \<open>cv::Scalar\<close> and to a pixel, \<open>copyMakeBorder\<close>
  with \<open>BORDER_CONSTANT\<close> (lines 76-79), the filled \<open>rectangle\<close> drawn on
  the overlay (lines 105-111) and \<open>addWeighted\<close> (line 112).  An image is
  a numpy array of shape (rows, cols, 3) of bytes: a record of the column
  count and the list of rows.  \<open>addWeighted\<close> is modelled with exact
  rational arithmetic and OpenCV's final rounding (nearest, ties to even)
  and saturation; OpenCV computes the weighted sum in single precision.
\<close>

section \<open>Images\<close>

text \<open>Channels 0, 1, 2 of a pixel; in the BGR image of the handler: blue, green, red.\<close>

type_synonym pixel = "8 word \<times> 8 word \<times> 8 word"

record cv_image =
  cols :: nat
  pix :: "pixel list list"

definition rows :: "cv_image \<Rightarrow> nat" where
  "rows im = length (pix im)"

text \<open>The shape invariant of a numpy image: every row has \<open>cols\<close> pixels.\<close>

definition wf_image :: "cv_image \<Rightarrow> bool" where
  "wf_image im \<longleftrightarrow> (\<forall>r \<in> set (pix im). length r = cols im)"

text \<open>\<open>img[y, x]\<close>: row \<open>y\<close>, column \<open>x\<close>.\<close>

definition pixel_at :: "cv_image \<Rightarrow> nat \<Rightarrow> nat \<Rightarrow> pixel" where
  "pixel_at im x y = pix im ! y ! x"

section \<open>Colours: Python tuple to \<open>cv::Scalar\<close> to pixel\<close>

text \<open>
  OpenCV's Python binding converts a sequence of at most four numbers to a
  \<open>cv::Scalar\<close>, padding with zeros, and refuses a longer one
  (\<open>Scalar value for argument 'value' is longer than 4\<close>).  Drawing on a
  3-channel byte image uses the first three components, each saturated to
  a byte.
\<close>

definition to_scalar :: "int list \<Rightarrow> error + int list" where
  "to_scalar v = (if length v \<le> 4 then Inr (v @ replicate (4 - length v) 0) else Inl CvError)"

definition scalar_pixel :: "int list \<Rightarrow> error + pixel" where
  "scalar_pixel v =
     bindE (to_scalar v) (\<lambda>s. Inr (saturate_u8 (s ! 0), saturate_u8 (s ! 1), saturate_u8 (s ! 2)))"

section \<open>\<open>cv2.copyMakeBorder(img, t, t, t, t, cv2.BORDER_CONSTANT, value=c)\<close>\<close>

definition border_image :: "nat \<Rightarrow> pixel \<Rightarrow> cv_image \<Rightarrow> cv_image" where
  "border_image t p im =
     (let w = cols im + 2 * t; band = replicate t (replicate w p)
      in \<lparr>cols = w, pix = band @ map (\<lambda>r. replicate t p @ r @ replicate t p) (pix im) @ band\<rparr>)"

text \<open>The colour argument is converted first; then OpenCV asserts that every side is \<open>\<ge> 0\<close>.\<close>

definition copy_make_border :: "int \<Rightarrow> int list \<Rightarrow> cv_image \<Rightarrow> error + cv_image" where
  "copy_make_border t c im =
     bindE (scalar_pixel c) (\<lambda>p. if t < 0 then Inl CvError else Inr (border_image (nat t) p im))"

section \<open>\<open>cv2.rectangle(img, p1, p2, colour, -1)\<close>: a filled rectangle\<close>

text \<open>
  A filled rectangle covers the pixels between the two corners, both
  included, in either order of the corners, clipped to the image.
\<close>

definition in_rect :: "int \<times> int \<Rightarrow> int \<times> int \<Rightarrow> nat \<Rightarrow> nat \<Rightarrow> bool" where
  "in_rect p1 p2 x y \<longleftrightarrow>
     min (fst p1) (fst p2) \<le> int x \<and> int x \<le> max (fst p1) (fst p2) \<and>
     min (snd p1) (snd p2) \<le> int y \<and> int y \<le> max (snd p1) (snd p2)"

definition fill_rect :: "cv_image \<Rightarrow> int \<times> int \<Rightarrow> int \<times> int \<Rightarrow> pixel \<Rightarrow> cv_image" where
  "fill_rect im p1 p2 c =
     im\<lparr>pix := map_idx (\<lambda>y row. map_idx (\<lambda>x q. if in_rect p1 p2 x y then c else q) 0 row) 0 (pix im)\<rparr>"

definition rectangle_filled :: "cv_image \<Rightarrow> int \<times> int \<Rightarrow> int \<times> int \<Rightarrow> int list \<Rightarrow> error + cv_image" where
  "rectangle_filled im p1 p2 colour = bindE (scalar_pixel colour) (\<lambda>c. Inr (fill_rect im p1 p2 c))"

section \<open>\<open>cv2.addWeighted(src1, alpha, src2, beta, gamma, dst)\<close>\<close>

definition blend_channel :: "rat \<Rightarrow> rat \<Rightarrow> rat \<Rightarrow> 8 word \<Rightarrow> 8 word \<Rightarrow> 8 word" where
  "blend_channel \<alpha> \<beta> \<gamma> a b =
     saturate_u8 (round_half_even (of_nat (unat a) * \<alpha> + of_nat (unat b) * \<beta> + \<gamma>))"

fun blend_pixel :: "rat \<Rightarrow> rat \<Rightarrow> rat \<Rightarrow> pixel \<Rightarrow> pixel \<Rightarrow> pixel" where
  "blend_pixel \<alpha> \<beta> \<gamma> (a0, a1, a2) (b0, b1, b2) =
     (blend_channel \<alpha> \<beta> \<gamma> a0 b0, blend_channel \<alpha> \<beta> \<gamma> a1 b1, blend_channel \<alpha> \<beta> \<gamma> a2 b2)"

text \<open>The two sources must have the same size (an OpenCV assertion otherwise).\<close>

definition add_weighted :: "cv_image \<Rightarrow> rat \<Rightarrow> cv_image \<Rightarrow> rat \<Rightarrow> rat \<Rightarrow> error + cv_image" where
  "add_weighted a \<alpha> b \<beta> \<gamma> =
     (if cols a = cols b \<and> rows a = rows b \<and> (\<forall>k < rows a. length (pix a ! k) = length (pix b ! k))
      then Inr (b\<lparr>pix := map2 (map2 (blend_pixel \<alpha> \<beta> \<gamma>)) (pix a) (pix b)\<rparr>)
      else Inl CvError)"

section \<open>The label plate: lines 104-112\<close>

text \<open>
  \<open>overlay = img.copy()\<close>; a filled rectangle of the background colour on
  the overlay; \<open>addWeighted(overlay, o, img, 1 - o, 0, img)\<close>.
\<close>

definition blend_plate :: "cv_image \<Rightarrow> int \<times> int \<Rightarrow> int \<times> int \<Rightarrow> int list \<Rightarrow> rat \<Rightarrow> error + cv_image" where
  "blend_plate im p1 p2 bg opacity =
     bindE (rectangle_filled im p1 p2 bg) (\<lambda>overlay. add_weighted overlay opacity im (1 - opacity) 0)"


section \<open>Lemmas: shape, and the pixels each operation writes\<close>

lemma nth_map2_eq [simp]:
  "i < length xs \<Longrightarrow> i < length ys \<Longrightarrow> map2 f xs ys ! i = f (xs ! i) (ys ! i)"
  by simp

lemma wf_imageD: "wf_image im \<Longrightarrow> y < rows im \<Longrightarrow> length (pix im ! y) = cols im"
  by (simp add: wf_image_def rows_def)

lemma border_image_shape [simp]:
  "cols (border_image t p im) = cols im + 2 * t"
  "rows (border_image t p im) = rows im + 2 * t"
  by (simp_all add: border_image_def rows_def Let_def)

lemma wf_border_image: "wf_image im \<Longrightarrow> wf_image (border_image t p im)"
  by (auto simp: border_image_def wf_image_def Let_def)

lemma pixel_at_border_image:
  assumes wf: "wf_image im" and x: "x < cols im + 2 * t" and y: "y < rows im + 2 * t"
  shows "pixel_at (border_image t p im) x y =
           (if t \<le> x \<and> x < t + cols im \<and> t \<le> y \<and> y < t + rows im
            then pixel_at im (x - t) (y - t) else p)"
proof -
  let ?w = "cols im + 2 * t"
  let ?mid = "map (\<lambda>r. replicate t p @ r @ replicate t p) (pix im)"
  have pix: "pix (border_image t p im) = replicate t (replicate ?w p) @ ?mid @ replicate t (replicate ?w p)"
    by (simp add: border_image_def Let_def)
  show ?thesis
  proof (cases "t \<le> y \<and> y < t + rows im")
    case True
    then have "\<not> y < t" "y - t < length (pix im)" by (auto simp: rows_def)
    then have row: "pix (border_image t p im) ! y = replicate t p @ pix im ! (y - t) @ replicate t p"
      by (simp add: pix nth_append)
    have len: "length (pix im ! (y - t)) = cols im"
      using True wf by (intro wf_imageD) (auto simp: rows_def)
    show ?thesis
      using True x len by (auto simp: pixel_at_def row nth_append)
  next
    case False
    then have "pix (border_image t p im) ! y = replicate ?w p"
      using y by (auto simp: pix nth_append rows_def)
    then show ?thesis using False x by (auto simp: pixel_at_def)
  qed
qed

lemma fill_rect_shape [simp]:
  "cols (fill_rect im p1 p2 c) = cols im" "rows (fill_rect im p1 p2 c) = rows im"
  by (simp_all add: fill_rect_def rows_def)

lemma wf_fill_rect: "wf_image im \<Longrightarrow> wf_image (fill_rect im p1 p2 c)"
  by (auto simp: fill_rect_def wf_image_def dest!: set_map_idx)

lemma pixel_at_fill_rect:
  "wf_image im \<Longrightarrow> x < cols im \<Longrightarrow> y < rows im \<Longrightarrow>
   pixel_at (fill_rect im p1 p2 c) x y = (if in_rect p1 p2 x y then c else pixel_at im x y)"
  by (simp add: fill_rect_def pixel_at_def rows_def wf_imageD)

lemma add_weighted_same_shape:
  assumes "wf_image a" "wf_image b" "cols a = cols b" "rows a = rows b"
  shows "add_weighted a \<alpha> b \<beta> \<gamma> = Inr (b\<lparr>pix := map2 (map2 (blend_pixel \<alpha> \<beta> \<gamma>)) (pix a) (pix b)\<rparr>)"
  using assms by (simp add: add_weighted_def wf_imageD)

lemma add_weighted_shape:
  assumes "add_weighted a \<alpha> b \<beta> \<gamma> = Inr c"
  shows "cols c = cols b" "rows c = rows b"
  using assms by (auto simp: add_weighted_def rows_def split: if_splits)

lemma wf_add_weighted:
  assumes "add_weighted a \<alpha> b \<beta> \<gamma> = Inr c" "wf_image b"
  shows "wf_image c"
proof -
  have "length (pix c ! i) = cols c" if "i < length (pix c)" for i
    using assms that by (auto simp: add_weighted_def rows_def wf_image_def split: if_splits)
  then show ?thesis by (auto simp: wf_image_def in_set_conv_nth)
qed

lemma pixel_at_add_weighted:
  assumes "add_weighted a \<alpha> b \<beta> \<gamma> = Inr c" "wf_image b" "x < cols b" "y < rows b"
  shows "pixel_at c x y = blend_pixel \<alpha> \<beta> \<gamma> (pixel_at a x y) (pixel_at b x y)"
  using assms by (auto simp: add_weighted_def pixel_at_def rows_def wf_imageD split: if_splits)

text \<open>Blending a pixel with itself by weights that sum to one gives it back.\<close>

lemma blend_channel_self: "blend_channel \<alpha> (1 - \<alpha>) 0 a a = a"
proof -
  have e: "of_nat (unat a) * \<alpha> + of_nat (unat a) * (1 - \<alpha>) + 0 = (of_int (int (unat a)) :: rat)"
    by (simp add: algebra_simps)
  show ?thesis
    unfolding blend_channel_def e round_half_even_of_int saturate_u8_unat ..
qed

lemma blend_pixel_self: "blend_pixel \<alpha> (1 - \<alpha>) 0 p p = p"
  by (cases p) (simp add: blend_channel_self)


section \<open>Lemmas: the label plate\<close>

lemma cv_image_eqI:
  assumes "wf_image a" "wf_image b" "cols a = cols b" "rows a = rows b"
    and "cv_image.more a = cv_image.more b"
    and "\<And>x y. x < cols a \<Longrightarrow> y < rows a \<Longrightarrow> pixel_at a x y = pixel_at b x y"
  shows "a = b"
proof (rule cv_image.equality)
  show "pix a = pix b"
  proof (rule nth_equalityI)
    show "length (pix a) = length (pix b)" using assms(4) by (simp add: rows_def)
    fix y assume y: "y < length (pix a)"
    show "pix a ! y = pix b ! y"
      using assms y by (intro nth_equalityI) (auto simp: pixel_at_def rows_def wf_imageD)
  qed
qed (use assms in simp_all)

lemma scalar_pixel_Inl_iff: "scalar_pixel v = Inl e \<longleftrightarrow> 4 < length v \<and> e = CvError"
  by (auto simp: scalar_pixel_def to_scalar_def)

lemma scalar_pixel_Inr: "length v \<le> 4 \<Longrightarrow> \<exists>c. scalar_pixel v = Inr c"
  by (simp add: scalar_pixel_def to_scalar_def)

lemma blend_plate_eq:
  assumes "wf_image im" "scalar_pixel bg = Inr c"
  shows "blend_plate im p1 p2 bg \<alpha> =
           Inr (im\<lparr>pix := map2 (map2 (blend_pixel \<alpha> (1 - \<alpha>) 0)) (pix (fill_rect im p1 p2 c)) (pix im)\<rparr>)"
  using assms
  by (simp add: blend_plate_def rectangle_filled_def add_weighted_same_shape wf_fill_rect)

lemma blend_plate_bad_colour: "scalar_pixel bg = Inl e \<Longrightarrow> blend_plate im p1 p2 bg \<alpha> = Inl e"
  by (simp add: blend_plate_def rectangle_filled_def)

lemma blend_plate_Inl_iff:
  "wf_image im \<Longrightarrow> blend_plate im p1 p2 bg \<alpha> = Inl e \<longleftrightarrow> scalar_pixel bg = Inl e"
  by (cases "scalar_pixel bg") (simp_all add: blend_plate_eq, simp add: blend_plate_def rectangle_filled_def)

lemma blend_plate_shape:
  assumes "blend_plate im p1 p2 bg \<alpha> = Inr im'" "wf_image im"
  shows "cols im' = cols im \<and> rows im' = rows im \<and> wf_image im'"
proof -
  obtain overlay where "rectangle_filled im p1 p2 bg = Inr overlay"
    and aw: "add_weighted overlay \<alpha> im (1 - \<alpha>) 0 = Inr im'"
    using assms(1) by (auto simp: blend_plate_def model_simps)
  then show ?thesis using add_weighted_shape [OF aw] wf_add_weighted [OF aw assms(2)] by simp
qed

lemma pixel_at_blend_plate:
  assumes "blend_plate im p1 p2 bg \<alpha> = Inr im'" "wf_image im" "x < cols im" "y < rows im"
  shows "\<exists>c. scalar_pixel bg = Inr c \<and>
           pixel_at im' x y = (if in_rect p1 p2 x y then blend_pixel \<alpha> (1 - \<alpha>) 0 c (pixel_at im x y)
                               else pixel_at im x y)"
proof -
  obtain c where c: "scalar_pixel bg = Inr c"
    using assms(1) by (cases "scalar_pixel bg") (auto simp: blend_plate_def rectangle_filled_def)
  have "add_weighted (fill_rect im p1 p2 c) \<alpha> im (1 - \<alpha>) 0 = Inr im'"
    using assms(1) c by (simp add: blend_plate_def rectangle_filled_def)
  then have "pixel_at im' x y = blend_pixel \<alpha> (1 - \<alpha>) 0 (pixel_at (fill_rect im p1 p2 c) x y) (pixel_at im x y)"
    using assms(2-4) by (rule pixel_at_add_weighted)
  then show ?thesis
    using c assms(2-4) by (simp add: pixel_at_fill_rect blend_pixel_self)
qed

lemma blend_channel_1 [simp]: "blend_channel 1 0 0 a b = a"
  unfolding blend_channel_def by simp

lemma blend_channel_0 [simp]: "blend_channel 0 1 0 a b = b"
  unfolding blend_channel_def by simp

lemma blend_pixel_1 [simp]: "blend_pixel 1 0 0 p q = p"
  by (cases p, cases q) simp

lemma blend_pixel_0 [simp]: "blend_pixel 0 1 0 p q = q"
  by (cases p, cases q) simp

lemma copy_make_border_Inr_iff:
  "copy_make_border t c img = Inr b \<longleftrightarrow> 0 \<le> t \<and> (\<exists>p. scalar_pixel c = Inr p \<and> b = border_image (nat t) p img)"
  by (auto simp: copy_make_border_def model_simps split: if_splits)


section \<open>Properties of the raster operations\<close>

text \<open>
  C10: With opacity 1 the label plate replaces every pixel of the plate rectangle by the background colour: the plate is drawn and each pixel inside it is the pixel of the colour tuple.
\<close>

theorem plate_opacity_one:
  assumes "wf_image im" "length bg \<le> 4"
  shows "\<exists>im' c. blend_plate im p1 p2 bg 1 = Inr im' \<and> scalar_pixel bg = Inr c \<and>
           (\<forall>x < cols im. \<forall>y < rows im. in_rect p1 p2 x y \<longrightarrow> pixel_at im' x y = c)"
proof -
  obtain c where c: "scalar_pixel bg = Inr c" using scalar_pixel_Inr [OF assms(2)] by blast
  obtain im' where im': "blend_plate im p1 p2 bg 1 = Inr im'"
    using blend_plate_eq [OF assms(1) c] by blast
  have "\<forall>x < cols im. \<forall>y < rows im. in_rect p1 p2 x y \<longrightarrow> pixel_at im' x y = c"
    using pixel_at_blend_plate [OF im' assms(1)] c by auto
  with c im' show ?thesis by blast
qed

theorem plate_opacity_one_witness:
  "wf_image \<lparr>cols = 2, pix = [ [(1, 2, 3), (4, 5, 6)] ]\<rparr> \<and> length [10, 20, 30::int] \<le> 4 \<and>
   (\<exists>im' c. blend_plate \<lparr>cols = 2, pix = [ [(1, 2, 3), (4, 5, 6)] ]\<rparr> (0, 0) (0, 0) [10, 20, 30] 1 = Inr im' \<and> scalar_pixel [10, 20, 30] = Inr c \<and>
      (\<forall>x < cols \<lparr>cols = 2, pix = [ [(1, 2, 3), (4, 5, 6)] ]\<rparr>. \<forall>y < rows \<lparr>cols = 2, pix = [ [(1, 2, 3), (4, 5, 6)] ]\<rparr>. in_rect (0, 0) (0, 0) x y \<longrightarrow> pixel_at im' x y = c))"
proof -
  have h: "wf_image \<lparr>cols = 2, pix = [ [(1, 2, 3), (4, 5, 6)] ]\<rparr>" by (simp add: wf_image_def)
  show ?thesis using plate_opacity_one [OF h, of "[10, 20, 30]" "(0, 0)" "(0, 0)"] h by simp
qed

text \<open>
  C11: With opacity 0 the label plate leaves the whole canvas exactly as it was.
\<close>

theorem plate_opacity_zero:
  assumes "wf_image im" "length bg \<le> 4"
  shows "blend_plate im p1 p2 bg 0 = Inr im"
proof -
  obtain c where c: "scalar_pixel bg = Inr c" using scalar_pixel_Inr [OF assms(2)] by blast
  obtain im' where im': "blend_plate im p1 p2 bg 0 = Inr im'"
    using blend_plate_eq [OF assms(1) c] by blast
  have shape: "cols im' = cols im \<and> rows im' = rows im \<and> wf_image im'"
    using blend_plate_shape [OF im' assms(1)] .
  have more: "cv_image.more im' = cv_image.more im"
    using blend_plate_eq [OF assms(1) c, of p1 p2 0] im' by auto
  have "im' = im"
  proof (rule cv_image_eqI)
    fix x y assume "x < cols im'" "y < rows im'"
    then show "pixel_at im' x y = pixel_at im x y"
      using pixel_at_blend_plate [OF im' assms(1)] shape c by auto
  qed (use shape assms(1) more in simp_all)
  with im' show ?thesis by simp
qed

theorem plate_opacity_zero_witness:
  "wf_image \<lparr>cols = 2, pix = [ [(1, 2, 3), (4, 5, 6)] ]\<rparr> \<and> length [10, 20, 30::int] \<le> 4 \<and> blend_plate \<lparr>cols = 2, pix = [ [(1, 2, 3), (4, 5, 6)] ]\<rparr> (0, 0) (5, 5) [10, 20, 30] 0 = Inr \<lparr>cols = 2, pix = [ [(1, 2, 3), (4, 5, 6)] ]\<rparr>"
proof -
  have h: "wf_image \<lparr>cols = 2, pix = [ [(1, 2, 3), (4, 5, 6)] ]\<rparr>" by (simp add: wf_image_def)
  show ?thesis using plate_opacity_zero [OF h, of "[10, 20, 30]" "(0, 0)" "(5, 5)"] h by simp
qed





text \<open>
  C14: \<open>copyMakeBorder\<close> with a thickness t \<ge> 0 and a colour of at most four components gives a rectangular canvas of size (W + 2t) \<times> (H + 2t) whose pixel (x + t, y + t) is the source pixel (x, y) and whose other pixels have the border colour.
\<close>

theorem copy_make_border_spec:
  assumes "wf_image im" "0 \<le> t" "length c \<le> 4"
  shows "\<exists>im' p. copy_make_border t c im = Inr im' \<and> scalar_pixel c = Inr p \<and> wf_image im' \<and>
           cols im' = cols im + 2 * nat t \<and> rows im' = rows im + 2 * nat t \<and>
           (\<forall>x < cols im'. \<forall>y < rows im'. pixel_at im' x y =
              (if nat t \<le> x \<and> x < nat t + cols im \<and> nat t \<le> y \<and> y < nat t + rows im
               then pixel_at im (x - nat t) (y - nat t) else p))"
proof -
  obtain p where p: "scalar_pixel c = Inr p" using scalar_pixel_Inr [OF assms(3)] by blast
  let ?b = "border_image (nat t) p im"
  have "copy_make_border t c im = Inr ?b" using assms(2) p by (simp add: copy_make_border_Inr_iff)
  moreover have "\<forall>x < cols ?b. \<forall>y < rows ?b. pixel_at ?b x y =
      (if nat t \<le> x \<and> x < nat t + cols im \<and> nat t \<le> y \<and> y < nat t + rows im
       then pixel_at im (x - nat t) (y - nat t) else p)"
    using pixel_at_border_image [OF assms(1)] by simp
  ultimately show ?thesis using p wf_border_image [OF assms(1)] by auto
qed

theorem copy_make_border_spec_witness:
  "wf_image \<lparr>cols = 1, pix = [ [(1, 2, 3)] ]\<rparr> \<and> (0::int) \<le> 1 \<and> length [50, 60, 70::int] \<le> 4 \<and>
   (\<exists>im' p. copy_make_border 1 [50, 60, 70] \<lparr>cols = 1, pix = [ [(1, 2, 3)] ]\<rparr> = Inr im' \<and>
      scalar_pixel [50, 60, 70] = Inr p \<and> wf_image im' \<and>
      cols im' = cols \<lparr>cols = 1, pix = [ [(1, 2, 3)] ]\<rparr> + 2 * nat 1 \<and>
      rows im' = rows \<lparr>cols = 1, pix = [ [(1, 2, 3)] ]\<rparr> + 2 * nat 1 \<and>
      (\<forall>x < cols im'. \<forall>y < rows im'. pixel_at im' x y =
         (if nat 1 \<le> x \<and> x < nat 1 + cols \<lparr>cols = 1, pix = [ [(1, 2, 3)] ]\<rparr> \<and> nat 1 \<le> y \<and>
             y < nat 1 + rows \<lparr>cols = 1, pix = [ [(1, 2, 3)] ]\<rparr>
          then pixel_at \<lparr>cols = 1, pix = [ [(1, 2, 3)] ]\<rparr> (x - nat 1) (y - nat 1) else p)))"
proof -
  have wf: "wf_image \<lparr>cols = 1, pix = [ [(1, 2, 3)] ]\<rparr>" by (simp add: wf_image_def)
  show ?thesis using copy_make_border_spec [OF wf, of 1 "[50, 60, 70]"] wf by simp
qed

end
