(* ===== verification/PyText.thy ===== *)
theory PyText
  imports Prelude
begin

text \<open>
  The Python text operations the backend applies to query strings and
  labels (src/backend/main.py): \<open>str.split(",")\<close> and \<open>int(str)\<close> in the
  colour conversion \<open>tuple(map(int, s.split(",")))\<close> (lines 71-73),
  \<open>str(int)\<close> as its inverse, and the format \<open>f"{conf:.2f}"\<close> of the label
  (line 87).  Strings are byte lists; the Unicode digits and spaces that
  CPython's \<open>int()\<close> also accepts beyond ASCII are not modelled.
\<close>

section \<open>\<open>str.split(sep)\<close>\<close>

text \<open>
  Python's \<open>s.split(",")\<close>: the pieces between separators, empty pieces
  kept, \<open>"".split(",") = [""]\<close>.  Never an empty list.
\<close>

fun split_on :: "char \<Rightarrow> string \<Rightarrow> string list" where
  "split_on d [] = [ [] ]"
| "split_on d (c # cs) =
     (if c = d then [] # split_on d cs
      else (let r = split_on d cs in (c # hd r) # tl r))"

text \<open>\<open>sep.join(ws)\<close>, the inverse of \<open>split\<close>.\<close>

fun join_on :: "char \<Rightarrow> string list \<Rightarrow> string" where
  "join_on d [] = []"
| "join_on d [w] = w"
| "join_on d (w # ws) = w @ d # join_on d ws"

section \<open>\<open>int(str)\<close> and \<open>str(int)\<close>\<close>

text \<open>
  The ASCII characters CPython's \<open>int()\<close> skips around the number: the
  C-level spaces \<open>\t \n \v \f \r\<close> and the blank, and the separators
  \<open>\x1c\<close>..\<open>\x1f\<close>, which \<open>str.isspace\<close> counts as whitespace too.
\<close>

definition py_space :: "char \<Rightarrow> bool" where
  "py_space c \<longleftrightarrow> of_char c \<in> ({9, 10, 11, 12, 13, 28, 29, 30, 31, 32} :: nat set)"

definition py_strip :: "string \<Rightarrow> string" where
  "py_strip s = rev (dropWhile py_space (rev (dropWhile py_space s)))"

definition digit_val :: "char \<Rightarrow> nat option" where
  "digit_val c = (let n = of_char c :: nat in if 48 \<le> n \<and> n \<le> 57 then Some (n - 48) else None)"

text \<open>
  Decimal digits after the first one: each may be preceded by a single
  underscore (PEP 515), and the literal may not end in one.
\<close>

fun digits_acc :: "nat \<Rightarrow> string \<Rightarrow> nat option" where
  "digits_acc acc [] = Some acc"
| "digits_acc acc (c # cs) =
     (if c = CHR ''_'' then
        (case cs of
           [] \<Rightarrow> None
         | d # ds \<Rightarrow> (case digit_val d of
                        None \<Rightarrow> None
                      | Some v \<Rightarrow> digits_acc (10 * acc + v) ds))
      else (case digit_val c of
              None \<Rightarrow> None
            | Some v \<Rightarrow> digits_acc (10 * acc + v) cs))"

definition parse_unsigned :: "string \<Rightarrow> nat option" where
  "parse_unsigned s =
     (case s of
        [] \<Rightarrow> None
      | c # cs \<Rightarrow> (case digit_val c of None \<Rightarrow> None | Some v \<Rightarrow> digits_acc v cs))"

text \<open>
  CPython's limit on the length of a decimal integer string
  (\<open>sys.get_int_max_str_digits()\<close>, 4300 by default): \<open>int()\<close> raises
  \<open>ValueError\<close> for a literal of more digits, underscores not counted.
\<close>

definition int_max_str_digits :: nat where
  "int_max_str_digits = 4300"

definition digit_count :: "string \<Rightarrow> nat" where
  "digit_count s = length (filter (\<lambda>c. digit_val c \<noteq> None) s)"

text \<open>
  \<open>int(s)\<close> in base 10: surrounding whitespace stripped, one optional sign
  directly before the digits, at most \<open>int_max_str_digits\<close> digits;
  \<open>None\<close> is the \<open>ValueError\<close>.
\<close>

definition py_int :: "string \<Rightarrow> int option" where
  "py_int s =
     (let t = py_strip s in
      case t of
        [] \<Rightarrow> None
      | c # r \<Rightarrow>
          (let (sg, body) = (if c = CHR ''-'' then (-1, r) else if c = CHR ''+'' then (1, r) else (1, t))
           in if int_max_str_digits < digit_count body then None
              else map_option (\<lambda>n. sg * int n) (parse_unsigned body)))"

definition digit_char :: "nat \<Rightarrow> char" where
  "digit_char n = char_of (48 + n)"

fun show_nat :: "nat \<Rightarrow> string" where
  "show_nat n = (if n < 10 then [digit_char n] else show_nat (n div 10) @ [digit_char (n mod 10)])"

declare show_nat.simps [simp del]

definition show_int :: "int \<Rightarrow> string" where
  "show_int i = (if i < 0 then CHR ''-'' # show_nat (nat (- i)) else show_nat (nat i))"

section \<open>The label number: \<open>f"{q:.2f}"\<close>\<close>

text \<open>
  Python formats a float with two decimals by correctly rounding its exact
  value, ties to even, and keeps the sign of a negative value that rounds
  to zero.
\<close>

definition fmt_2f :: "rat \<Rightarrow> string" where
  "fmt_2f q =
     (let n = nat (round_half_even (\<bar>q\<bar> * 100))
      in (if q < 0 then ''-'' else []) @ show_nat (n div 100) @ ''.'' @
         [digit_char (n mod 100 div 10), digit_char (n mod 10)])"

section \<open>Colour strings: \<open>tuple(map(int, s.split(",")))\<close>\<close>

definition py_int_or_raise :: "string \<Rightarrow> error + int" where
  "py_int_or_raise w = (case py_int w of None \<Rightarrow> Inl ValueError | Some i \<Rightarrow> Inr i)"

definition parse_color :: "string \<Rightarrow> error + int list" where
  "parse_color s = mapE py_int_or_raise (split_on CHR '','' s)"

text \<open>The value of a string of digits, read left to right.\<close>

definition dstep :: "nat \<Rightarrow> char \<Rightarrow> nat" where
  "dstep a c = 10 * a + the (digit_val c)"

section \<open>Lemmas: digits, \<open>int(str(n)) = n\<close>, \<open>split(join(ws)) = ws\<close>\<close>

lemma split_on_not_Nil [simp]: "split_on d s \<noteq> []"
  by (induction s) (auto simp: Let_def)

lemma split_on_append_sep:
  "d \<notin> set w \<Longrightarrow> split_on d (w @ d # s) = w # split_on d s"
  by (induction w) (auto simp: Let_def)

lemma split_on_no_sep:
  "d \<notin> set w \<Longrightarrow> split_on d w = [w]"
  by (induction w) (auto simp: Let_def)

lemma digit_val_digit_char [simp]: "n < 10 \<Longrightarrow> digit_val (digit_char n) = Some n"
  by (simp add: digit_val_def digit_char_def)

lemma digit_val_Some_range:
  "digit_val c \<noteq> None \<Longrightarrow> 48 \<le> (of_char c :: nat) \<and> (of_char c :: nat) \<le> 57"
  by (auto simp: digit_val_def Let_def split: if_splits)

lemma digit_not_special:
  assumes "digit_val c \<noteq> None"
  shows "\<not> py_space c" "c \<noteq> CHR ''-''" "c \<noteq> CHR ''+''" "c \<noteq> CHR ''_''" "c \<noteq> CHR '',''"
  using digit_val_Some_range [OF assms] by (auto simp: py_space_def)

lemma show_nat_digits: "c \<in> set (show_nat n) \<Longrightarrow> digit_val c \<noteq> None"
proof (induction n rule: show_nat.induct)
  case (1 n)
  then show ?case
    by (subst (asm) show_nat.simps) (auto split: if_splits)
qed

lemma show_nat_not_Nil [simp]: "show_nat n \<noteq> []"
  by (subst show_nat.simps) simp

lemma digits_acc_digits:
  "\<forall>c \<in> set xs. digit_val c \<noteq> None \<Longrightarrow> digits_acc acc xs = Some (foldl dstep acc xs)"
proof (induction xs arbitrary: acc)
  case Nil
  then show ?case by simp
next
  case (Cons c xs)
  then have "c \<noteq> CHR ''_''" by (simp add: digit_not_special)
  with Cons show ?case by (auto simp: dstep_def)
qed

lemma dstep_digit_char [simp]: "n < 10 \<Longrightarrow> dstep a (digit_char n) = 10 * a + n"
  by (simp add: dstep_def)

lemma foldl_dstep_show_nat: "foldl dstep 0 (show_nat n) = n"
proof (induction n rule: show_nat.induct)
  case (1 n)
  show ?case
  proof (cases "n < 10")
    case True
    then show ?thesis by (subst show_nat.simps) simp
  next
    case False
    with "1.IH" show ?thesis by (subst show_nat.simps) simp
  qed
qed

lemma parse_unsigned_show_nat [simp]: "parse_unsigned (show_nat n) = Some n"
proof (cases "show_nat n")
  case Nil
  then show ?thesis by simp
next
  case (Cons c cs)
  have ds: "\<forall>x \<in> set (c # cs). digit_val x \<noteq> None"
    using Cons show_nat_digits by metis
  then obtain v where v: "digit_val c = Some v" by auto
  have "digits_acc v cs = Some (foldl dstep 0 (c # cs))"
    using ds v digits_acc_digits [of cs v] by (simp add: dstep_def)
  then show ?thesis using Cons v foldl_dstep_show_nat [of n] by (simp add: parse_unsigned_def)
qed

lemma dropWhile_all_not: "\<forall>x \<in> set xs. \<not> P x \<Longrightarrow> dropWhile P xs = xs"
  by (induction xs) auto

lemma py_strip_no_space: "\<forall>c \<in> set s. \<not> py_space c \<Longrightarrow> py_strip s = s"
  by (simp add: py_strip_def dropWhile_all_not)

lemma show_int_no_space:
  assumes "c \<in> set (show_int i)" shows "\<not> py_space c \<and> c \<noteq> CHR '',''"
proof (cases "c = CHR ''-''")
  case True
  then show ?thesis by (simp add: py_space_def)
next
  case False
  with assms have "c \<in> set (show_nat (nat \<bar>i\<bar>))"
    by (auto simp: show_int_def split: if_splits)
  then have "digit_val c \<noteq> None" by (rule show_nat_digits)
  then show ?thesis using digit_not_special by blast
qed

lemma length_show_nat: "0 < k \<Longrightarrow> n < 10 ^ k \<Longrightarrow> length (show_nat n) \<le> k"
proof (induction n arbitrary: k rule: show_nat.induct)
  case (1 n)
  show ?case
  proof (cases "n < 10")
    case True
    then show ?thesis using "1.prems" by (subst show_nat.simps) simp
  next
    case False
    then have "k \<noteq> 1" using "1.prems" by auto
    then obtain j where k: "k = Suc j" "0 < j" using "1.prems"(1) by (cases k) auto
    have "n div 10 < 10 ^ j" using "1.prems"(2) k by (simp add: div_less_iff_less_mult mult.commute)
    then have "length (show_nat (n div 10)) \<le> j" using "1.IH" False k by blast
    with False k show ?thesis by (subst show_nat.simps) simp
  qed
qed

lemma digit_count_show_nat: "digit_count (show_nat n) = length (show_nat n)"
  using show_nat_digits [of _ n] by (simp add: digit_count_def filter_id_conv)

lemma digit_count_show_nat_le:
  "\<bar>i\<bar> < 10 ^ int_max_str_digits \<Longrightarrow> digit_count (show_nat (nat \<bar>i\<bar>)) \<le> int_max_str_digits"
proof -
  assume a: "\<bar>i\<bar> < 10 ^ int_max_str_digits"
  have "int (nat \<bar>i\<bar>) < int (10 ^ int_max_str_digits)" using a by simp
  then have "nat \<bar>i\<bar> < 10 ^ int_max_str_digits" by (simp only: of_nat_less_iff)
  moreover have "0 < int_max_str_digits" by (simp add: int_max_str_digits_def)
  ultimately show ?thesis by (simp add: digit_count_show_nat length_show_nat)
qed

lemma py_int_show_int:
  assumes "\<bar>i\<bar> < 10 ^ int_max_str_digits"
  shows "py_int (show_int i) = Some i"
proof -
  have strip: "py_strip (show_int i) = show_int i"
    using show_int_no_space by (blast intro: py_strip_no_space)
  have dc: "\<not> int_max_str_digits < digit_count (show_nat (nat \<bar>i\<bar>))"
    using digit_count_show_nat_le [OF assms] by simp
  show ?thesis
  proof (cases "i < 0")
    case True
    then show ?thesis using strip dc by (simp add: py_int_def show_int_def)
  next
    case False
    obtain c cs where cs: "show_nat (nat i) = c # cs" by (cases "show_nat (nat i)") auto
    then have "digit_val c \<noteq> None" using show_nat_digits by (metis list.set_intros(1))
    then have "c \<noteq> CHR ''-''" "c \<noteq> CHR ''+''" by (simp_all add: digit_not_special)
    with False strip cs dc show ?thesis
      using parse_unsigned_show_nat [of "nat i"] by (simp add: py_int_def show_int_def)
  qed
qed

lemma split_on_join_on:
  "ws \<noteq> [] \<Longrightarrow> \<forall>w \<in> set ws. d \<notin> set w \<Longrightarrow> split_on d (join_on d ws) = ws"
proof (induction d ws rule: join_on.induct)
  case (2 d w)
  then show ?case by (simp add: split_on_no_sep)
next
  case (3 d w v vs)
  then show ?case by (simp add: split_on_append_sep)
qed simp

lemma py_int_or_raise_show_int:
  "\<bar>i\<bar> < 10 ^ int_max_str_digits \<Longrightarrow> py_int_or_raise (show_int i) = Inr i"
  by (simp add: py_int_or_raise_def py_int_show_int)

lemma mapE_py_int_show_int:
  "list_all (\<lambda>v. \<bar>v\<bar> < 10 ^ int_max_str_digits) vs \<Longrightarrow> mapE py_int_or_raise (map show_int vs) = Inr vs"
  by (induction vs) (auto simp: py_int_or_raise_show_int)

lemma digit_char_0 [simp]: "digit_char 0 = CHR ''0''"
  by code_simp

lemma show_nat_small [simp]: "n < 10 \<Longrightarrow> show_nat n = [digit_char n]"
  by (subst show_nat.simps) simp

lemma round_half_even_percent_range:
  assumes "0 \<le> q" "q \<le> 1"
  shows "0 \<le> round_half_even (q * 100) \<and> round_half_even (q * 100) \<le> 100"
proof -
  have "round_half_even (of_int 0) \<le> round_half_even (q * 100)"
    using assms by (intro round_half_even_mono) simp
  moreover have "round_half_even (q * 100) \<le> round_half_even (of_int 100)"
    using assms by (intro round_half_even_mono) simp
  ultimately show ?thesis by simp
qed

lemma fmt_2f_length:
  "0 \<le> q \<Longrightarrow> q \<le> 1 \<Longrightarrow> length (fmt_2f q) = 4"
proof -
  assume "0 \<le> q" "q \<le> 1"
  then have "round_half_even (\<bar>q\<bar> * 100) \<le> 100" "\<not> q < 0"
    using round_half_even_percent_range by auto
  then show ?thesis by (simp add: fmt_2f_def Let_def)
qed

lemma small_int_digits:
  fixes i :: int shows "\<bar>i\<bar> < 1000 \<Longrightarrow> \<bar>i\<bar> < 10 ^ int_max_str_digits"
proof -
  assume a: "\<bar>i\<bar> < 1000"
  have "3 \<le> int_max_str_digits" by (simp add: int_max_str_digits_def)
  then have "(10::int) ^ 3 \<le> 10 ^ int_max_str_digits" by (rule power_increasing) simp
  with a show ?thesis by simp
qed

section \<open>Properties of the text operations\<close>

text \<open>
  C20: Colour strings round-trip: joining the decimal forms of any non-empty
  list of integers with commas and parsing the result as the handler does
  gives the list back, provided every component has at most the 4300 digits
  CPython's \<open>int()\<close> accepts.
\<close>

theorem parse_color_roundtrip:
  "vs \<noteq> [] \<Longrightarrow> list_all (\<lambda>v. \<bar>v\<bar> < 10 ^ int_max_str_digits) vs \<Longrightarrow>
   parse_color (join_on CHR '','' (map show_int vs)) = Inr vs"
proof -
  assume "vs \<noteq> []" and b: "list_all (\<lambda>v. \<bar>v\<bar> < 10 ^ int_max_str_digits) vs"
  moreover have "\<forall>w \<in> set (map show_int vs). CHR '','' \<notin> set w"
    using show_int_no_space by auto
  ultimately show ?thesis
    by (simp add: parse_color_def split_on_join_on mapE_py_int_show_int [OF b])
qed

theorem parse_color_roundtrip_witness:
  "[255, -3::int] \<noteq> [] \<and> list_all (\<lambda>v. \<bar>v\<bar> < 10 ^ int_max_str_digits) [255, -3::int] \<and>
   parse_color (join_on CHR '','' (map show_int [255, -3])) = Inr [255, -3]"
proof -
  have b: "list_all (\<lambda>v. \<bar>v\<bar> < 10 ^ int_max_str_digits) [255, -3::int]"
    using small_int_digits [of 255] small_int_digits [of "-3"] by simp
  show ?thesis using parse_color_roundtrip [of "[255, -3]", OF _ b] b by simp
qed

text \<open>
  C21: The label's number is the confidence rounded to the nearest
  hundredth, ties to even: for a confidence q with 0 \<le> q < 0.995 the
  label shows \<open>0.\<close> and two digits of a k with \<open>|100 q - k| \<le> 1/2\<close>, and k
  is even when 100 q lies exactly half-way.
\<close>

theorem fmt_2f_nearest:
  assumes "0 \<le> q" "q < 199/200"
  shows "\<exists>k<100. fmt_2f q = [CHR ''0'', CHR ''.'', digit_char (k div 10), digit_char (k mod 10)] \<and>
           \<bar>q * 100 - of_nat k\<bar> \<le> 1/2 \<and> (\<bar>q * 100 - of_nat k\<bar> = 1/2 \<longrightarrow> even k)"
proof -
  define r where "r = round_half_even (q * 100)"
  have r0: "0 \<le> r" using round_half_even_mono [of 0 "q * 100"] assms(1) by (simp add: r_def)
  have rb: "of_int r - 1/2 \<le> q * 100 \<and> q * 100 \<le> of_int r + 1/2"
    using round_half_even_bounds [of "q * 100"] by (simp add: r_def)
  have r100: "r < 100" using rb assms(2) by linarith
  define k where "k = nat r"
  have kr: "of_nat k = (of_int r :: rat)" using r0 by (simp add: k_def)
  have k100: "k < 100" using r100 by (simp add: k_def)
  have "fmt_2f q = [CHR ''0'', CHR ''.'', digit_char (k div 10), digit_char (k mod 10)]"
    using assms(1) k100 by (simp add: fmt_2f_def Let_def r_def [symmetric] k_def [symmetric])
  moreover have "\<bar>q * 100 - of_nat k\<bar> \<le> 1/2" using rb kr unfolding abs_le_iff by linarith
  moreover have "\<bar>q * 100 - of_nat k\<bar> = 1/2 \<longrightarrow> even k"
    using round_half_even_tie [of "q * 100"] kr r0 by (simp add: r_def [symmetric] k_def even_nat_iff)
  ultimately show ?thesis using k100 by blast
qed

theorem fmt_2f_nearest_witness:
  "(0::rat) \<le> 1/8 \<and> (1/8::rat) < 199/200 \<and> fmt_2f (1/8) = [CHR ''0'', CHR ''.'', digit_char 1, digit_char 2]"
proof -
  have h: "(0::rat) \<le> 1/8" "(1/8::rat) < 199/200" by simp_all
  obtain k where k: "k < 100" "fmt_2f (1/8) = [CHR ''0'', CHR ''.'', digit_char (k div 10), digit_char (k mod 10)]"
    and d: "\<bar>1/8 * 100 - of_nat k\<bar> \<le> (1/2::rat)" and e: "\<bar>1/8 * 100 - of_nat k\<bar> = (1/2::rat) \<longrightarrow> even k"
    using fmt_2f_nearest [OF h] by blast
  have "(11::rat) < of_nat k" "of_nat k < (14::rat)" using d unfolding abs_le_iff by linarith+
  then have "11 < k" "k < 14" by (metis of_nat_less_iff of_nat_numeral)+
  then have "k = 12 \<or> k = 13" by auto
  then have "k = 12" using e by auto
  then show ?thesis using k h by simp
qed

end
