(* ===== verification/Annotate.thy ===== *)
theory Annotate
  imports Raster PyText
begin

text \<open>
  The annotation loop of \<open>processar_imagem\<close> (src/backend/main.py, lines
  75-114): the border, then for every box of every detection result whose
  confidence reaches the threshold the label, the translated corners and
  three drawing calls, in this order: the box outline (line 96), the
  semi-transparent label plate (lines 104-112) and the label text (line 114).
  The calls of one box are a list of drawing commands, executed on the
  canvas one after the other.  The outline and the text are rasterised by
  OpenCV's line and Hershey-font code, which is not modelled pixel by pixel:
  they are the fields of a record \<open>cv_lib\<close>, a parameter of the loop, and
  \<open>lib_ok\<close> states what the theorems need of them (they keep the shape of
  the canvas).  The plate is modelled exactly (theory \<open>Raster\<close>).
\<close>

section \<open>Detections and the style of the request\<close>

text \<open>
  One box of \<open>result.boxes\<close>: \<open>box.conf[0].item()\<close>, \<open>box.xyxy[0]\<close> and
  \<open>box.cls[0]\<close>, floats, here their exact rational values.
\<close>

record box =
  b_conf :: rat
  b_xyxy :: "rat \<times> rat \<times> rat \<times> rat"
  b_cls :: rat

text \<open>The query parameters that reach the loop, the colours already parsed (lines 71-73).\<close>

record style =
  min_confidence :: rat
  pad_thickness :: int
  border_color :: "int list"
  text_scale :: rat
  text_thickness :: int
  annotation_color :: "int list"
  background_color :: "int list"
  bg_opacity :: rat

text \<open>\<open>detector.names\<close>: class index to class name.\<close>

type_synonym class_names = "int \<Rightarrow> string option"

text \<open>
  The OpenCV calls not modelled pixel by pixel: \<open>cv2.rectangle\<close> with a
  positive thickness, \<open>cv2.putText\<close> and \<open>cv2.getTextSize\<close> (width and height
  of the text; the baseline is unused by the code).
\<close>

record cv_lib =
  draw_rect :: "cv_image \<Rightarrow> int \<times> int \<Rightarrow> int \<times> int \<Rightarrow> pixel \<Rightarrow> int \<Rightarrow> cv_image"
  put_text :: "cv_image \<Rightarrow> string \<Rightarrow> int \<times> int \<Rightarrow> rat \<Rightarrow> pixel \<Rightarrow> int \<Rightarrow> cv_image"
  text_size :: "string \<Rightarrow> rat \<Rightarrow> int \<Rightarrow> int \<times> int"

text \<open>What the theorems assume of the library: drawing keeps the canvas' shape.\<close>

definition lib_ok :: "cv_lib \<Rightarrow> bool" where
  "lib_ok lib \<longleftrightarrow>
     (\<forall>im p1 p2 c th. wf_image im \<longrightarrow>
        wf_image (draw_rect lib im p1 p2 c th) \<and> cols (draw_rect lib im p1 p2 c th) = cols im \<and>
        rows (draw_rect lib im p1 p2 c th) = rows im) \<and>
     (\<forall>im s org sc c th. wf_image im \<longrightarrow>
        wf_image (put_text lib im s org sc c th) \<and> cols (put_text lib im s org sc c th) = cols im \<and>
        rows (put_text lib im s org sc c th) = rows im)"

section \<open>Drawing commands\<close>

datatype draw_cmd =
    DrawBox "int \<times> int" "int \<times> int" "int list" int
  | BlendPlate "int \<times> int" "int \<times> int" "int list" rat
  | PutText string "int \<times> int" rat "int list" int

text \<open>
  Each command converts its colour tuple to a \<open>cv::Scalar\<close> when it runs, so
  a colour of more than four components fails at the first command that
  uses it.
\<close>

fun exec_cmd :: "cv_lib \<Rightarrow> cv_image \<Rightarrow> draw_cmd \<Rightarrow> error + cv_image" where
  "exec_cmd lib im (DrawBox p1 p2 col th) =
     bindE (scalar_pixel col) (\<lambda>c. Inr (draw_rect lib im p1 p2 c th))"
| "exec_cmd lib im (BlendPlate p1 p2 col opacity) = blend_plate im p1 p2 col opacity"
| "exec_cmd lib im (PutText s org sc col th) =
     bindE (scalar_pixel col) (\<lambda>c. Inr (put_text lib im s org sc c th))"

fun exec_cmds :: "cv_lib \<Rightarrow> cv_image \<Rightarrow> draw_cmd list \<Rightarrow> error + cv_image" where
  "exec_cmds lib im [] = Inr im"
| "exec_cmds lib im (c # cs) = bindE (exec_cmd lib im c) (\<lambda>im'. exec_cmds lib im' cs)"

section \<open>One box: lines 86-114\<close>

text \<open>Line 87: \<open>f"{detector.names[int(box.cls[0])]} {conf:.2f}"\<close>.\<close>

definition box_label :: "class_names \<Rightarrow> box \<Rightarrow> error + string" where
  "box_label names b =
     (case names (trunc_rat (b_cls b)) of
        None \<Rightarrow> Inl KeyError
      | Some n \<Rightarrow> Inr (n @ '' '' @ fmt_2f (b_conf b)))"

text \<open>Lines 86 and 90-93: \<open>map(int, box.xyxy[0])\<close>, each plus the border thickness.\<close>

definition box_corners :: "int \<Rightarrow> box \<Rightarrow> (int \<times> int) \<times> (int \<times> int)" where
  "box_corners t b =
     (case b_xyxy b of (x1, y1, x2, y2) \<Rightarrow>
        ((trunc_rat x1 + t, trunc_rat y1 + t), (trunc_rat x2 + t, trunc_rat y2 + t)))"

text \<open>
  Lines 96-114 for a box with corners \<open>(x1, y1)\<close>, \<open>(x2, y2)\<close>: the green
  outline of thickness 2, the text extent, the origin \<open>(x1, y1 - 10)\<close>, the
  plate from \<open>(x1, y1 - 10 - h - 5)\<close> to \<open>(x1 + w + 5, y1 - 10 + 5)\<close>, the text.
\<close>

definition box_cmds ::
  "(string \<Rightarrow> rat \<Rightarrow> int \<Rightarrow> int \<times> int) \<Rightarrow> style \<Rightarrow> string \<Rightarrow> (int \<times> int) \<times> (int \<times> int) \<Rightarrow> draw_cmd list" where
  "box_cmds tsize st label corners =
     (case corners of ((x1, y1), (x2, y2)) \<Rightarrow>
       (case tsize label (text_scale st) (text_thickness st) of (tw, th) \<Rightarrow>
         (let org = (x1, y1 - 10) in
          [DrawBox (x1, y1) (x2, y2) [0, 255, 0] 2,
           BlendPlate (fst org, snd org - th - 5) (fst org + tw + 5, snd org + 5)
             (background_color st) (bg_opacity st),
           PutText label org (text_scale st) (annotation_color st) (text_thickness st)])))"

definition annotate_box :: "cv_lib \<Rightarrow> style \<Rightarrow> class_names \<Rightarrow> cv_image \<Rightarrow> box \<Rightarrow> error + cv_image" where
  "annotate_box lib st names im b =
     bindE (box_label names b) (\<lambda>label.
       exec_cmds lib im (box_cmds (text_size lib) st label (box_corners (pad_thickness st) b)))"

section \<open>The loops: lines 82-85\<close>

fun annotate_boxes :: "cv_lib \<Rightarrow> style \<Rightarrow> class_names \<Rightarrow> cv_image \<Rightarrow> box list \<Rightarrow> error + cv_image" where
  "annotate_boxes lib st names im [] = Inr im"
| "annotate_boxes lib st names im (b # bs) =
     (if min_confidence st \<le> b_conf b
      then bindE (annotate_box lib st names im b) (\<lambda>im'. annotate_boxes lib st names im' bs)
      else annotate_boxes lib st names im bs)"

fun annotate_results :: "cv_lib \<Rightarrow> style \<Rightarrow> class_names \<Rightarrow> cv_image \<Rightarrow> box list list \<Rightarrow> error + cv_image" where
  "annotate_results lib st names im [] = Inr im"
| "annotate_results lib st names im (r # rs) =
     bindE (annotate_boxes lib st names im r) (\<lambda>im'. annotate_results lib st names im' rs)"

text \<open>Lines 75-114: the border, then the loops over the detection results.\<close>

definition annotate_image :: "cv_lib \<Rightarrow> style \<Rightarrow> class_names \<Rightarrow> cv_image \<Rightarrow> box list list \<Rightarrow> error + cv_image" where
  "annotate_image lib st names img results =
     bindE (copy_make_border (pad_thickness st) (border_color st) img) (\<lambda>bordered.
       annotate_results lib st names bordered results)"

section \<open>Reference: filter, then draw\<close>

text \<open>
  The specification's reading of the loop: keep the boxes whose confidence
  reaches the threshold, then annotate each kept box in order.
\<close>

definition kept_boxes :: "style \<Rightarrow> box list list \<Rightarrow> box list" where
  "kept_boxes st results = filter (\<lambda>b. min_confidence st \<le> b_conf b) (concat results)"

fun annotate_all :: "cv_lib \<Rightarrow> style \<Rightarrow> class_names \<Rightarrow> cv_image \<Rightarrow> box list \<Rightarrow> error + cv_image" where
  "annotate_all lib st names im [] = Inr im"
| "annotate_all lib st names im (b # bs) =
     bindE (annotate_box lib st names im b) (\<lambda>im'. annotate_all lib st names im' bs)"

text \<open>Moving a command by a vector: the image of a command on a canvas with a border.\<close>

fun shift_cmd :: "int \<Rightarrow> draw_cmd \<Rightarrow> draw_cmd" where
  "shift_cmd t (DrawBox (a, b) (c, d) col th) = DrawBox (a + t, b + t) (c + t, d + t) col th"
| "shift_cmd t (BlendPlate (a, b) (c, d) col opa) = BlendPlate (a + t, b + t) (c + t, d + t) col opa"
| "shift_cmd t (PutText s (a, b) sc col th) = PutText s (a + t, b + t) sc col th"

section \<open>Sample inputs for the witnesses\<close>

text \<open>
  A drawing library that leaves the canvas as it is, a style with the
  server's defaults but a five-component background colour, a one-pixel
  image, and two boxes of class 0 below and above the threshold.
\<close>

definition sample_lib :: cv_lib where
  "sample_lib = \<lparr>draw_rect = (\<lambda>im p1 p2 c th. im), put_text = (\<lambda>im s org sc c th. im), text_size = (\<lambda>s sc th. (int (length s) * 10, 12))\<rparr>"

definition sample_style :: style where
  "sample_style = \<lparr>min_confidence = 1/4, pad_thickness = 1, border_color = [50, 50, 50], text_scale = 7/10, text_thickness = 2, annotation_color = [255, 255, 255], background_color = [1, 2, 3, 4, 5], bg_opacity = 1/2\<rparr>"

definition sample_names :: class_names where
  "sample_names = (\<lambda>i. if i = 0 then Some ''person'' else None)"

definition sample_img :: cv_image where
  "sample_img = \<lparr>cols = 1, pix = [ [(1, 2, 3)] ]\<rparr>"

definition low_box :: box where
  "low_box = \<lparr>b_conf = 1/10, b_xyxy = (0, 0, 1, 1), b_cls = 0\<rparr>"

definition high_box :: box where
  "high_box = \<lparr>b_conf = 9/10, b_xyxy = (0, 0, 1, 1), b_cls = 0\<rparr>"

section \<open>Lemmas: the loops against the reference, shapes, translation\<close>

lemma annotate_all_append:
  "annotate_all lib st names im (xs @ ys) =
   bindE (annotate_all lib st names im xs) (\<lambda>im'. annotate_all lib st names im' ys)"
  by (induction xs arbitrary: im) auto

lemma annotate_boxes_filter:
  "annotate_boxes lib st names im bs =
   annotate_all lib st names im (filter (\<lambda>b. min_confidence st \<le> b_conf b) bs)"
  by (induction bs arbitrary: im) auto

lemma exec_cmd_shape:
  assumes "lib_ok lib" "wf_image im" "exec_cmd lib im c = Inr im'"
  shows "wf_image im' \<and> cols im' = cols im \<and> rows im' = rows im"
proof (cases c)
  case (BlendPlate p1 p2 col opa)
  then show ?thesis using assms blend_plate_shape by auto
qed (use assms in \<open>auto simp: lib_ok_def model_simps\<close>)

lemma exec_cmds_shape:
  "lib_ok lib \<Longrightarrow> wf_image im \<Longrightarrow> exec_cmds lib im cs = Inr im' \<Longrightarrow>
   wf_image im' \<and> cols im' = cols im \<and> rows im' = rows im"
proof (induction cs arbitrary: im)
  case Nil
  then show ?case by simp
next
  case (Cons c cs)
  then obtain im1 where "exec_cmd lib im c = Inr im1" "exec_cmds lib im1 cs = Inr im'"
    by (auto simp: model_simps)
  with Cons.IH Cons.prems exec_cmd_shape show ?case by metis
qed

lemma annotate_box_shape:
  "lib_ok lib \<Longrightarrow> wf_image im \<Longrightarrow> annotate_box lib st names im b = Inr im' \<Longrightarrow>
   wf_image im' \<and> cols im' = cols im \<and> rows im' = rows im"
  by (auto simp: annotate_box_def model_simps dest: exec_cmds_shape)

lemma annotate_all_shape:
  "lib_ok lib \<Longrightarrow> wf_image im \<Longrightarrow> annotate_all lib st names im bs = Inr im' \<Longrightarrow>
   wf_image im' \<and> cols im' = cols im \<and> rows im' = rows im"
proof (induction bs arbitrary: im)
  case Nil
  then show ?case by simp
next
  case (Cons b bs)
  then obtain im1 where "annotate_box lib st names im b = Inr im1" "annotate_all lib st names im1 bs = Inr im'"
    by (auto simp: model_simps)
  with Cons.IH Cons.prems annotate_box_shape show ?case by metis
qed

lemma box_corners_shift:
  "box_corners t b = (case box_corners 0 b of ((a, c), (d, e)) \<Rightarrow> ((a + t, c + t), (d + t, e + t)))"
  by (simp add: box_corners_def split: prod.splits)

lemma scalar_pixel_green [simp]: "scalar_pixel [0, 255, 0] = Inr (0, 255, 0)"
  by (simp add: scalar_pixel_def to_scalar_def saturate_u8_def)

lemma annotate_results_filtered:
  "annotate_results lib st names im rs = annotate_all lib st names im (kept_boxes st rs)"
  by (induction rs arbitrary: im) (simp_all add: kept_boxes_def annotate_boxes_filter annotate_all_append)

lemma box_cmds_nth:
  assumes "tsize label (text_scale st) (text_thickness st) = (tw, th)"
  shows "box_cmds tsize st label ((xa, ya), (xb, yb)) ! 1 =
           BlendPlate (xa, ya - 10 - th - 5) (xa + tw + 5, ya - 10 + 5) (background_color st) (bg_opacity st) \<and>
         box_cmds tsize st label ((xa, ya), (xb, yb)) ! 2 =
           PutText label (xa, ya - 10) (text_scale st) (annotation_color st) (text_thickness st)"
  using assms by (simp add: box_cmds_def)

lemma lib_ok_wf:
  "lib_ok lib \<Longrightarrow> wf_image im \<Longrightarrow> wf_image (draw_rect lib im p1 p2 c th)"
  "lib_ok lib \<Longrightarrow> wf_image im \<Longrightarrow> wf_image (put_text lib im s org sc c th)"
  unfolding lib_ok_def by blast+

lemma box_cmds_Inr:
  assumes "lib_ok lib" "wf_image im" "length (background_color st) \<le> 4" "length (annotation_color st) \<le> 4"
  shows "\<exists>im'. exec_cmds lib im (box_cmds tsize st label corners) = Inr im' \<and> wf_image im'"
proof -
  obtain xa ya xb yb where c: "corners = ((xa, ya), (xb, yb))" by (cases corners) auto
  obtain tw th where t: "tsize label (text_scale st) (text_thickness st) = (tw, th)" by fastforce
  obtain bg where bg: "scalar_pixel (background_color st) = Inr bg" using scalar_pixel_Inr assms(3) by blast
  obtain ac where ac: "scalar_pixel (annotation_color st) = Inr ac" using scalar_pixel_Inr assms(4) by blast
  define im1 where "im1 = draw_rect lib im (xa, ya) (xb, yb) (0, 255, 0) 2"
  have w1: "wf_image im1" using lib_ok_wf(1) [OF assms(1,2)] by (simp add: im1_def)
  obtain im2 where p: "blend_plate im1 (xa, ya - 10 - th - 5) (xa + tw + 5, ya - 10 + 5) (background_color st) (bg_opacity st) = Inr im2"
    using blend_plate_eq [OF w1 bg] by blast
  have w2: "wf_image im2" using blend_plate_shape [OF p w1] by simp
  have "exec_cmds lib im (box_cmds tsize st label corners) =
        Inr (put_text lib im2 label (xa, ya - 10) (text_scale st) ac (text_thickness st))"
    using p by (simp add: box_cmds_def c t ac im1_def)
  moreover have "wf_image (put_text lib im2 label (xa, ya - 10) (text_scale st) ac (text_thickness st))"
    by (rule lib_ok_wf(2) [OF assms(1) w2])
  ultimately show ?thesis by blast
qed

lemma annotate_all_Inr:
  assumes "lib_ok lib" "wf_image im" "length (background_color st) \<le> 4" "length (annotation_color st) \<le> 4"
    and "list_all (\<lambda>b. names (trunc_rat (b_cls b)) \<noteq> None) bs"
  shows "\<exists>im'. annotate_all lib st names im bs = Inr im' \<and> wf_image im'"
  using assms(2,5)
proof (induction bs arbitrary: im)
  case Nil
  then show ?case by simp
next
  case (Cons b bs)
  obtain n where n: "names (trunc_rat (b_cls b)) = Some n" using Cons.prems(2) by auto
  obtain im1 where "exec_cmds lib im (box_cmds (text_size lib) st (n @ '' '' @ fmt_2f (b_conf b))
      (box_corners (pad_thickness st) b)) = Inr im1" "wf_image im1"
    using box_cmds_Inr [OF assms(1) Cons.prems(1) assms(3,4)] by blast
  then show ?case using Cons.IH [of im1] Cons.prems(2) n by (simp add: annotate_box_def box_label_def)
qed

lemma annotate_image_Inr:
  assumes "lib_ok lib" "wf_image img" "0 \<le> pad_thickness st" "length (border_color st) \<le> 4"
    and "length (background_color st) \<le> 4" "length (annotation_color st) \<le> 4"
    and "list_all (\<lambda>b. names (trunc_rat (b_cls b)) \<noteq> None) (concat rs)"
  shows "\<exists>out. annotate_image lib st names img rs = Inr out"
proof -
  obtain p where p: "scalar_pixel (border_color st) = Inr p" using scalar_pixel_Inr assms(4) by blast
  have b: "copy_make_border (pad_thickness st) (border_color st) img = Inr (border_image (nat (pad_thickness st)) p img)"
    using copy_make_border_Inr_iff assms(3) p by blast
  have k: "list_all (\<lambda>b. names (trunc_rat (b_cls b)) \<noteq> None) (kept_boxes st rs)"
    using assms(7) by (auto simp: kept_boxes_def list_all_iff)
  show ?thesis
    using annotate_all_Inr [OF assms(1) wf_border_image [OF assms(2)] assms(5,6) k, of "nat (pad_thickness st)" p] b
    by (auto simp: annotate_image_def annotate_results_filtered)
qed

section \<open>Properties of the annotation loop\<close>

text \<open>
  C6: The nested loop over results and boxes, with its confidence guard inside, does exactly what filtering first and then annotating does: it annotates, in order, the boxes of all results whose confidence is at least the threshold (the bound is inclusive).
\<close>

theorem annotate_results_reference:
  "annotate_results lib st names im rs = annotate_all lib st names im (kept_boxes st rs)"
proof (induction rs arbitrary: im)
  case Nil
  show ?case by (simp add: kept_boxes_def)
next
  case (Cons r rs)
  have "annotate_boxes lib st names im r =
        annotate_all lib st names im (filter (\<lambda>b. min_confidence st \<le> b_conf b) r)"
    by (rule annotate_boxes_filter)
  with Cons.IH show ?case by (simp add: kept_boxes_def annotate_all_append)
qed

text \<open>
  C7: When no detection reaches the threshold, the output is the bordered source image and nothing else: no box, no label, and neither the text nor the background colour is even converted.
\<close>

theorem annotate_image_border_only:
  "kept_boxes st rs = [] \<Longrightarrow>
   annotate_image lib st names img rs = copy_make_border (pad_thickness st) (border_color st) img"
proof -
  assume "kept_boxes st rs = []"
  then have "annotate_results lib st names im rs = Inr im" for im
    by (simp add: annotate_results_filtered)
  then show ?thesis by (simp add: annotate_image_def)
qed

theorem annotate_image_border_only_witness:
  "kept_boxes sample_style [ [low_box] ] = [] \<and>
   annotate_image sample_lib sample_style sample_names sample_img [ [low_box] ] = copy_make_border 1 [50, 50, 50] sample_img"
proof -
  have k: "kept_boxes sample_style [ [low_box] ] = []" by (simp add: kept_boxes_def sample_lib_def sample_style_def sample_names_def sample_img_def low_box_def high_box_def)
  show ?thesis using annotate_image_border_only [OF k, of sample_lib sample_names sample_img] k
    by (simp add: sample_style_def)
qed

text \<open>
  C8: Whatever the detections, an annotated output canvas is rectangular and measures (W + 2t) \<times> (H + 2t), provided the drawing library keeps the shape of the canvas.
\<close>

theorem annotate_image_shape:
  assumes "lib_ok lib" "wf_image img" "annotate_image lib st names img rs = Inr out"
  shows "wf_image out \<and> cols out = cols img + 2 * nat (pad_thickness st) \<and>
         rows out = rows img + 2 * nat (pad_thickness st)"
proof -
  obtain b where b: "copy_make_border (pad_thickness st) (border_color st) img = Inr b"
    and r: "annotate_all lib st names b (kept_boxes st rs) = Inr out"
    using assms(3) by (auto simp: annotate_image_def annotate_results_filtered model_simps)
  from iffD1 [OF copy_make_border_Inr_iff b] obtain p where bp: "b = border_image (nat (pad_thickness st)) p img"
    by blast
  have "wf_image b" using bp wf_border_image assms(2) by simp
  then show ?thesis using annotate_all_shape [OF assms(1) _ r] bp by simp
qed

theorem annotate_image_shape_witness:
  "lib_ok sample_lib \<and> wf_image sample_img \<and>
   annotate_image sample_lib sample_style sample_names sample_img [] = Inr (border_image 1 (50, 50, 50) sample_img) \<and>
   wf_image (border_image 1 (50, 50, 50) sample_img) \<and>
   cols (border_image 1 (50, 50, 50) sample_img) = cols sample_img + 2 * nat (pad_thickness sample_style) \<and>
   rows (border_image 1 (50, 50, 50) sample_img) = rows sample_img + 2 * nat (pad_thickness sample_style)"
proof -
  have l: "lib_ok sample_lib" by (simp add: lib_ok_def sample_lib_def)
  have w: "wf_image sample_img" by (simp add: wf_image_def sample_img_def)
  have a: "annotate_image sample_lib sample_style sample_names sample_img [] = Inr (border_image 1 (50, 50, 50) sample_img)"
    by (simp add: annotate_image_def copy_make_border_def scalar_pixel_def to_scalar_def saturate_u8_def
        sample_style_def)
  show ?thesis using annotate_image_shape [OF l w a] l w a by (simp add: sample_style_def)
qed

text \<open>
  C9: Every coordinate the loop passes to a drawing call is in bordered-canvas space: the commands drawn for a box on a canvas with border t are those for the unbordered box moved by (t, t), outline, label plate and text origin alike.
\<close>

theorem box_cmds_translation:
  "box_cmds tsize st label (box_corners t b) = map (shift_cmd t) (box_cmds tsize st label (box_corners 0 b))"
  by (simp add: box_cmds_def box_corners_def Let_def algebra_simps split: prod.splits)

text \<open>
  C19: A background colour of more than four components fails with an OpenCV error as soon as one box passes the threshold with a known class, after its outline has been drawn.
\<close>

theorem annotate_boxes_bad_background:
  assumes "min_confidence st \<le> b_conf b" "names (trunc_rat (b_cls b)) \<noteq> None"
    and "4 < length (background_color st)"
  shows "annotate_boxes lib st names im (b # bs) = Inl CvError"
proof -
  have bg: "scalar_pixel (background_color st) = Inl CvError"
    using assms(3) by (simp add: scalar_pixel_Inl_iff)
  obtain n where n: "names (trunc_rat (b_cls b)) = Some n" using assms(2) by blast
  show ?thesis
    using assms(1) n bg
    by (simp add: annotate_box_def box_label_def box_cmds_def blend_plate_bad_colour
        split: prod.splits)
qed

theorem annotate_boxes_bad_background_witness:
  "min_confidence sample_style \<le> b_conf high_box \<and> sample_names (trunc_rat (b_cls high_box)) \<noteq> None \<and>
   4 < length (background_color sample_style) \<and> annotate_boxes sample_lib sample_style sample_names sample_img [high_box] = Inl CvError"
proof -
  have h: "min_confidence sample_style \<le> b_conf high_box" "sample_names (trunc_rat (b_cls high_box)) \<noteq> None"
    "4 < length (background_color sample_style)" by (simp_all add: sample_lib_def sample_style_def sample_names_def sample_img_def low_box_def high_box_def)
  show ?thesis
    using annotate_boxes_bad_background [where st = sample_style and b = high_box and names = sample_names
        and lib = sample_lib and im = sample_img and bs = "[]", OF h] h by simp
qed

text \<open>
  C22: For a confidence in [0, 1] and a known class, the label is the class name, a blank and four characters.
\<close>

theorem box_label_length:
  assumes "names (trunc_rat (b_cls b)) = Some n" "0 \<le> b_conf b" "b_conf b \<le> 1"
  shows "\<exists>l. box_label names b = Inr l \<and> length l = length n + 5"
  using assms fmt_2f_length [OF assms(2,3)] by (simp add: box_label_def)

theorem box_label_length_witness:
  "sample_names (trunc_rat (b_cls high_box)) = Some ''person'' \<and> 0 \<le> b_conf high_box \<and> b_conf high_box \<le> 1 \<and>
   (\<exists>l. box_label sample_names high_box = Inr l \<and> length l = length ''person'' + 5)"
proof -
  have h: "sample_names (trunc_rat (b_cls high_box)) = Some ''person''" "0 \<le> b_conf high_box" "b_conf high_box \<le> 1"
    by (simp_all add: sample_lib_def sample_style_def sample_names_def sample_img_def low_box_def high_box_def)
  show ?thesis
    using box_label_length [where names = sample_names and b = high_box and n = "''person''", OF h] h by blast
qed

text \<open>
  C29: The label plate is exactly the text extent reported by getTextSize,
  from the text origin up to the text height, enlarged by 5 pixels above,
  to the right and below: a pixel lies in the plate rectangle if and only if
  it lies in that enlarged extent.
\<close>

theorem plate_text_margins:
  assumes "tsize label (text_scale st) (text_thickness st) = (tw, th)" "0 \<le> tw" "0 \<le> th"
    and "box_cmds tsize st label corners ! 1 = BlendPlate pa pb col opa"
    and "box_cmds tsize st label corners ! 2 = PutText s org sc col' th'"
  shows "in_rect pa pb x y \<longleftrightarrow>
           fst org \<le> int x \<and> int x \<le> fst org + tw + 5 \<and> snd org - th - 5 \<le> int y \<and> int y \<le> snd org + 5"
proof -
  obtain xa ya xb yb where c: "corners = ((xa, ya), (xb, yb))" by (cases corners) auto
  have "pa = (xa, ya - 10 - th - 5) \<and> pb = (xa + tw + 5, ya - 10 + 5) \<and> org = (xa, ya - 10)"
    using box_cmds_nth [where tsize = tsize and st = st and label = label and tw = tw and th = th
        and xa = xa and ya = ya and xb = xb and yb = yb, OF assms(1)] assms(4,5) c by simp
  then show ?thesis using assms(2,3) by (auto simp: in_rect_def)
qed

theorem plate_text_margins_witness:
  "text_size sample_lib ''person 0.90'' (text_scale sample_style) (text_thickness sample_style) = (110, 12) \<and>
   (0::int) \<le> 110 \<and> (0::int) \<le> 12 \<and>
   box_cmds (text_size sample_lib) sample_style ''person 0.90'' ((5, 30), (20, 40)) ! 1 =
     BlendPlate (5, 3) (120, 25) [1, 2, 3, 4, 5] (1/2) \<and>
   box_cmds (text_size sample_lib) sample_style ''person 0.90'' ((5, 30), (20, 40)) ! 2 =
     PutText ''person 0.90'' (5, 20) (7/10) [255, 255, 255] 2 \<and>
   in_rect (5, 3) (120, 25) 120 25 \<and> \<not> in_rect (5, 3) (120, 25) 121 25 \<and> \<not> in_rect (5, 3) (120, 25) 120 26"
proof -
  have t: "text_size sample_lib ''person 0.90'' (text_scale sample_style) (text_thickness sample_style) = (110, 12)"
    by (simp add: sample_lib_def)
  have b: "box_cmds (text_size sample_lib) sample_style ''person 0.90'' ((5, 30), (20, 40)) ! 1 =
     BlendPlate (5, 3) (120, 25) [1, 2, 3, 4, 5] (1/2)"
    "box_cmds (text_size sample_lib) sample_style ''person 0.90'' ((5, 30), (20, 40)) ! 2 =
     PutText ''person 0.90'' (5, 20) (7/10) [255, 255, 255] 2"
    by (simp_all add: box_cmds_def sample_lib_def sample_style_def)
  have "in_rect (5, 3) (120, 25) x y \<longleftrightarrow>
          5 \<le> int x \<and> int x \<le> 120 \<and> 3 \<le> int y \<and> int y \<le> 25" for x y
    using plate_text_margins [where tsize = "text_size sample_lib" and st = sample_style and label = "''person 0.90''"
        and tw = 110 and th = 12 and corners = "((5, 30), (20, 40))" and pa = "(5, 3)" and pb = "(120, 25)"
        and org = "(5, 20)", OF t _ _ b] by simp
  then show ?thesis using t b by simp
qed

end
