(* ===== verification/Service.thy ===== *)
theory Service
  imports Registry Annotate
begin

text \<open>
  The HTTP handlers put together (src/backend/main.py) and the Streamlit
  client (src/streamlit/app.py).  \<open>processar_imagem\<close> has one possible
  suspension point, \<open>await image_file.read()\<close> (line 63), between the model
  switch (\<open>processar_start\<close>, lines 55-60) and the rest
  (\<open>processar_resume\<close>, lines 64-120), which reads the global \<open>detector\<close>
  again; it suspends only for an upload spooled to disk.  The detector's
  inference, PIL's decoder and JPEG encoding are external: they are fields
  of the record \<open>env\<close>.  The concurrent service is a step relation over
  the registry and the requests in flight; \<open>mudar_modelo\<close> has no
  suspension point and is one step.  The three routes of the application,
  each run to its end, are the function \<open>serve\<close>.
\<close>

section \<open>Uploads, requests, responses\<close>

text \<open>
  \<open>np.array(Image.open(...))\<close>: an array with 3 channels (mode RGB), with 4
  (RGBA, CMYK), or another shape (the 2-D arrays of modes L, P, 1, I, F and
  the 2-channel LA); \<open>None\<close> when PIL cannot read the upload.
\<close>

datatype np_image =
    Arr3 nat "pixel list list"
  | Arr4 nat "(8 word \<times> 8 word \<times> 8 word \<times> 8 word) list list"
  | ArrOther

text \<open>An upload: its size in bytes and what PIL makes of its content.\<close>

type_synonym upload = "nat \<times> np_image option"

text \<open>
  The query parameters of lines 44-53, already of their declared types;
  FastAPI's conversion of the query strings is not modelled.
\<close>

record request =
  image_file :: upload
  selected_model :: string
  q_min_confidence :: rat
  q_pad_thickness :: int
  q_pad_color :: string
  q_text_scale :: rat
  q_text_thickness :: int
  q_text_color :: string
  q_bg_color :: string
  q_bg_opacity :: rat

text \<open>The defaults of lines 45-53, for every parameter a client leaves out.\<close>

definition default_request :: "upload \<Rightarrow> request" where
  "default_request up =
     \<lparr>image_file = up, selected_model = ''yolov8n'', q_min_confidence = 1/4, q_pad_thickness = 50,
      q_pad_color = ''50,50,50'', q_text_scale = 7/10, q_text_thickness = 2,
      q_text_color = ''255,255,255'', q_bg_color = ''0,0,0'', q_bg_opacity = 1/2\<rparr>"

text \<open>
  What the client receives: the JPEG stream (status 200), the dictionary
  \<open>{"error": ...}\<close> of line 119 (FastAPI sends it with status 200), a
  dictionary \<open>{"message": ...}\<close> (lines 18, 39, 40), or an HTTP error, 500
  for an uncaught exception.
\<close>

datatype response = JpegStream "8 word list" | JsonError string | JsonMessage string | HttpError nat

fun status_code :: "response \<Rightarrow> nat" where
  "status_code (JpegStream _) = 200"
| "status_code (JsonError _) = 200"
| "status_code (JsonMessage _) = 200"
| "status_code (HttpError n) = n"

fun error_response :: "error \<Rightarrow> response" where
  "error_response _ = HttpError 500"

text \<open>
  \<open>cv2.imencode(".jpg", img)\<close>: the bytes with the flag \<open>True\<close>, the flag
  \<open>False\<close>, or an OpenCV exception (OpenCV asserts on some failures).
\<close>

datatype enc_result = Encoded "8 word list" | EncodeFalse | EncodeRaises

text \<open>The collaborators the handlers call but do not implement.\<close>

record env =
  avail :: "string \<Rightarrow> bool"
  detect :: "handle \<Rightarrow> cv_image \<Rightarrow> box list list"
  names_of :: "handle \<Rightarrow> class_names"
  lib :: cv_lib
  imencode :: "cv_image \<Rightarrow> enc_result"

section \<open>\<open>processar_imagem\<close>\<close>

text \<open>Line 65: \<open>cv2.cvtColor(np.array(pilImage), cv2.COLOR_RGB2BGR)\<close> accepts 3 or 4 channels.\<close>

fun cvt_rgb2bgr :: "np_image \<Rightarrow> error + cv_image" where
  "cvt_rgb2bgr (Arr3 w px) = Inr \<lparr>cols = w, pix = map (map (\<lambda>(r, g, b). (b, g, r))) px\<rparr>"
| "cvt_rgb2bgr (Arr4 w px) = Inr \<lparr>cols = w, pix = map (map (\<lambda>(r, g, b, a). (b, g, r))) px\<rparr>"
| "cvt_rgb2bgr ArrOther = Inl CvError"

definition decode_upload :: "upload \<Rightarrow> error + cv_image" where
  "decode_upload up = (case snd up of None \<Rightarrow> Inl DecodeError | Some a \<Rightarrow> cvt_rgb2bgr a)"

text \<open>Before the suspension point: the model switch of lines 55-60.\<close>

definition processar_start :: "env \<Rightarrow> request \<Rightarrow> registry \<Rightarrow> error + registry" where
  "processar_start e rq reg = select_model (avail e) (selected_model rq) reg"

text \<open>
  After the suspension point, lines 64-120, with the registry as it is when
  the request resumes: decode, detect with the current \<open>detector\<close>, parse
  the three colours in order, border and annotate, encode.
\<close>

definition processar_resume :: "env \<Rightarrow> request \<Rightarrow> registry \<Rightarrow> response" where
  "processar_resume e rq reg =
     (let h = detector reg in
      case bindE (decode_upload (image_file rq)) (\<lambda>img.
           bindE (parse_color (q_pad_color rq)) (\<lambda>bc.
           bindE (parse_color (q_text_color rq)) (\<lambda>ac.
           bindE (parse_color (q_bg_color rq)) (\<lambda>bgc.
             annotate_image (lib e)
               \<lparr>min_confidence = q_min_confidence rq, pad_thickness = q_pad_thickness rq,
                border_color = bc, text_scale = q_text_scale rq, text_thickness = q_text_thickness rq,
                annotation_color = ac, background_color = bgc, bg_opacity = q_bg_opacity rq\<rparr>
               (names_of e h) img (detect e h img))))) of
        Inl err \<Rightarrow> error_response err
      | Inr out \<Rightarrow> (case imencode e out of
                     EncodeFalse \<Rightarrow> JsonError ''Falha ao codificar a imagem.''
                   | EncodeRaises \<Rightarrow> HttpError 500
                   | Encoded bytes \<Rightarrow> JpegStream bytes))"

text \<open>One request alone: both pieces, nothing in between.\<close>

definition processar_imagem :: "env \<Rightarrow> request \<Rightarrow> registry \<Rightarrow> response \<times> registry" where
  "processar_imagem e rq reg =
     (case processar_start e rq reg of
        Inl err \<Rightarrow> (error_response err, reg)
      | Inr reg' \<Rightarrow> (processar_resume e rq reg', reg'))"

section \<open>Concurrent requests\<close>

text \<open>
  \<open>await image_file.read()\<close> only suspends the handler when the upload was
  spooled to disk: Starlette keeps an upload in memory up to its spool size
  of 1 MiB and then reads it without yielding to the event loop.
\<close>

definition spool_max_size :: nat where
  "spool_max_size = 1024 * 1024"

definition upload_in_memory :: "request \<Rightarrow> bool" where
  "upload_in_memory rq \<longleftrightarrow> fst (image_file rq) \<le> spool_max_size"

text \<open>
  A request in flight: not started, suspended at line 63, or answered.
  The service state: the registry globals and the requests by index.  A
  request with an upload in memory runs to its end in one step (\<open>run\<close>);
  one with a spooled upload is split at the \<open>await\<close> (\<open>start\<close>,
  \<open>start_fail\<close>, \<open>resume\<close>); \<open>mudar_modelo\<close> is one step (\<open>switch\<close>).
\<close>

datatype req_state = Pending request | Suspended request | Answered response

record service =
  reg :: registry
  reqs :: "req_state list"

inductive service_step :: "env \<Rightarrow> service \<Rightarrow> service \<Rightarrow> bool" for e where
  run: "i < length (reqs s) \<Longrightarrow> reqs s ! i = Pending rq \<Longrightarrow> upload_in_memory rq \<Longrightarrow>
    service_step e s \<lparr>reg = snd (processar_imagem e rq (reg s)),
                      reqs = (reqs s)[i := Answered (fst (processar_imagem e rq (reg s)))]\<rparr>"
| start: "i < length (reqs s) \<Longrightarrow> reqs s ! i = Pending rq \<Longrightarrow> \<not> upload_in_memory rq \<Longrightarrow>
    processar_start e rq (reg s) = Inr r' \<Longrightarrow>
    service_step e s \<lparr>reg = r', reqs = (reqs s)[i := Suspended rq]\<rparr>"
| start_fail: "i < length (reqs s) \<Longrightarrow> reqs s ! i = Pending rq \<Longrightarrow> \<not> upload_in_memory rq \<Longrightarrow>
    processar_start e rq (reg s) = Inl err \<Longrightarrow>
    service_step e s (s\<lparr>reqs := (reqs s)[i := Answered (error_response err)]\<rparr>)"
| resume: "i < length (reqs s) \<Longrightarrow> reqs s ! i = Suspended rq \<Longrightarrow>
    service_step e s (s\<lparr>reqs := (reqs s)[i := Answered (processar_resume e rq (reg s))]\<rparr>)"
| switch: "service_step e s (s\<lparr>reg := reg_step (avail e) (reg s) (MudarModelo v)\<rparr>)"

inductive service_steps :: "env \<Rightarrow> service \<Rightarrow> service \<Rightarrow> bool" for e where
  refl: "service_steps e s s"
| step: "service_step e s t \<Longrightarrow> service_steps e t u \<Longrightarrow> service_steps e s u"

definition service_init :: "request list \<Rightarrow> service" where
  "service_init rqs = \<lparr>reg = init_registry, reqs = map Pending rqs\<rparr>"



section \<open>The application's routes\<close>

text \<open>
  A call of one of the three routes of \<open>app\<close>: \<open>GET /\<close> (lines 16-18),
  \<open>POST /mudar_modelo/\<close> (lines 33-40) and \<open>POST /processar_imagem/\<close>
  (lines 42-120), each run to its end; \<open>serve\<close> answers it on the registry
  globals.  The root message's accented letter is written as its UTF-8
  bytes.
\<close>

datatype http_call = GetRoot | PostMudarModelo string | PostProcessarImagem request

definition root_message :: string where
  "root_message = ''Bem-vindo '' @ [CHR 0xC3, CHR 0xA0] @ '' API YOLO com FastAPI!''"

fun serve :: "env \<Rightarrow> registry \<Rightarrow> http_call \<Rightarrow> response \<times> registry" where
  "serve e r GetRoot = (JsonMessage root_message, r)"
| "serve e r (PostMudarModelo v) =
     (case mudar_modelo (avail e) v r of
        Inl err \<Rightarrow> (error_response err, r)
      | Inr (m, r') \<Rightarrow> (JsonMessage m, r'))"
| "serve e r (PostProcessarImagem rq) = processar_imagem e rq r"

section \<open>The Streamlit client: src/streamlit/app.py\<close>

text \<open>
  The sidebar values (lines 17-22) and the query the client builds from them
  (lines 33-42): it sends no colour, so the server's defaults apply.
\<close>

record ui_state =
  ui_model :: string
  ui_min_confidence :: rat
  ui_pad_thickness :: int
  ui_text_scale :: rat
  ui_text_thickness :: int
  ui_bg_opacity :: rat

definition ui_request :: "ui_state \<Rightarrow> upload \<Rightarrow> request" where
  "ui_request u up =
     (default_request up)\<lparr>selected_model := ui_model u, q_min_confidence := ui_min_confidence u,
        q_pad_thickness := ui_pad_thickness u, q_text_scale := ui_text_scale u,
        q_text_thickness := ui_text_thickness u, q_bg_opacity := ui_bg_opacity u\<rparr>"

text \<open>The ranges of the widgets: a value the client can send.\<close>

definition ui_valid :: "ui_state \<Rightarrow> bool" where
  "ui_valid u \<longleftrightarrow>
     ui_model u \<in> {''yolov8n'', ''yolov8s'', ''yolov8m'', ''yolov8l'', ''yolov8x''} \<and>
     0 \<le> ui_min_confidence u \<and> ui_min_confidence u \<le> 1 \<and>
     1 \<le> ui_pad_thickness u \<and> ui_pad_thickness u \<le> 10 \<and>
     1/10 \<le> ui_text_scale u \<and> ui_text_scale u \<le> 2 \<and>
     1 \<le> ui_text_thickness u \<and> ui_text_thickness u \<le> 5 \<and>
     0 \<le> ui_bg_opacity u \<and> ui_bg_opacity u \<le> 1"

text \<open>The widgets' initial values (lines 17-22): the first model of the list and the sliders' defaults.\<close>

definition ui_defaults :: ui_state where
  "ui_defaults =
     \<lparr>ui_model = ''yolov8n'', ui_min_confidence = 1/2, ui_pad_thickness = 2, ui_text_scale = 1/2,
      ui_text_thickness = 2, ui_bg_opacity = 1/2\<rparr>"

text \<open>
  Lines 44-49: on status 200 the client opens the body as an image; else it
  shows its error message.  A body that is not an image makes
  \<open>Image.open\<close> raise in the client.
\<close>

datatype ui_outcome = ShowsImage "8 word list" | ShowsError | ClientCrash

definition ui_handle :: "response \<Rightarrow> ui_outcome" where
  "ui_handle r =
     (if status_code r = 200 then (case r of JpegStream bytes \<Rightarrow> ShowsImage bytes | _ \<Rightarrow> ClientCrash)
      else ShowsError)"


text \<open>
  The script, lines 24-49: without an upload nothing happens; with one the
  original is shown, and when the button is pressed the query is sent and
  the answer handled.  An upload is its size and what the server decodes
  it to.
\<close>

record ui_run =
  sent :: "request option"
  shown_original :: bool
  outcome :: "ui_outcome option"

definition ui_script :: "ui_state \<Rightarrow> upload option \<Rightarrow> bool \<Rightarrow> (request \<Rightarrow> response) \<Rightarrow> ui_run" where
  "ui_script u upload pressed server =
     (case upload of
        None \<Rightarrow> \<lparr>sent = None, shown_original = False, outcome = None\<rparr>
      | Some up \<Rightarrow>
          (if pressed then \<lparr>sent = Some (ui_request u up), shown_original = True,
                            outcome = Some (ui_handle (server (ui_request u up)))\<rparr>
           else \<lparr>sent = None, shown_original = True, outcome = None\<rparr>))"

section \<open>A sample environment for the witnesses\<close>

text \<open>Every weight file loads, the detector finds nothing, and JPEG encoding succeeds.\<close>

definition sample_env :: env where
  "sample_env = \<lparr>avail = (\<lambda>_. True), detect = (\<lambda>h img. []), names_of = (\<lambda>h i. None), lib = sample_lib,
                 imencode = (\<lambda>im. Encoded [0xFF, 0xD8])\<rparr>"

section \<open>Lemmas on the handlers and the service steps\<close>

lemmas registry_unfold = select_model_def switch_model_def model_file_def yolo_load_def
  model_names_def model_files_def model_table_def

lemma processar_start_Inr:
  assumes "reg_inv r" "processar_start e rq r = Inr r'"
  shows "current_model r' = selected_model rq \<and> model_files (selected_model rq) = Some (weights (detector r')) \<and> reg_inv r'"
proof -
  obtain b where b: "switch_model (avail e) (selected_model rq) r = Inr (b, r')"
    using assms(2) by (auto simp: processar_start_def select_model_state)
  have inv': "reg_inv r'" using switch_model_inv [OF b assms(1)] .
  have "current_model r' = selected_model rq"
  proof (cases "selected_model rq = current_model r")
    case True
    then show ?thesis using b by (metis Pair_inject sum.inject(2) switch_model_same)
  next
    case False
    then show ?thesis using switch_model_Inr_other [OF b] by auto
  qed
  with inv' show ?thesis by (simp add: reg_inv_def)
qed


lemma start_step:
  "i < length (reqs s) \<Longrightarrow> reqs s ! i = Pending rq \<Longrightarrow> \<not> upload_in_memory rq \<Longrightarrow>
   processar_start e rq (reg s) = Inr r' \<Longrightarrow>
   service_steps e \<lparr>reg = r', reqs = (reqs s)[i := Suspended rq]\<rparr> u \<Longrightarrow> service_steps e s u"
  by (blast intro: service_steps.step service_step.start)

lemma resume_step:
  "i < length (reqs s) \<Longrightarrow> reqs s ! i = Suspended rq \<Longrightarrow>
   service_steps e (s\<lparr>reqs := (reqs s)[i := Answered (processar_resume e rq (reg s))]\<rparr>) u \<Longrightarrow> service_steps e s u"
  by (blast intro: service_steps.step service_step.resume)

lemma error_response_not_JpegStream [simp]: "error_response err \<noteq> JpegStream b"
  by simp






lemma default_colours:
  "parse_color ''50,50,50'' = Inr [50, 50, 50]"
  "parse_color ''255,255,255'' = Inr [255, 255, 255]"
  "parse_color ''0,0,0'' = Inr [0, 0, 0]"
  by code_simp+

lemma processar_resume_jpeg:
  assumes "image_file rq = (n, Some (Arr3 w px))" "list_all (\<lambda>row. length row = w) px"
    and "parse_color (q_pad_color rq) = Inr bc" "length bc \<le> 4"
    and "parse_color (q_text_color rq) = Inr ac" "length ac \<le> 4"
    and "parse_color (q_bg_color rq) = Inr bgc" "length bgc \<le> 4"
    and "0 \<le> q_pad_thickness rq" "lib_ok (lib e)" "\<forall>im. \<exists>b. imencode e im = Encoded b"
    and "\<forall>h im. list_all (\<lambda>b. names_of e h (trunc_rat (b_cls b)) \<noteq> None) (concat (detect e h im))"
  shows "\<exists>bytes. processar_resume e rq r = JpegStream bytes"
proof -
  define img where "img = \<lparr>cols = w, pix = map (map (\<lambda>(r, g, b). (b, g, r))) px\<rparr>"
  have d: "decode_upload (image_file rq) = Inr img" using assms(1) by (simp add: decode_upload_def img_def)
  have w: "wf_image img" using assms(2) by (auto simp: wf_image_def img_def list_all_iff)
  define st where "st = \<lparr>min_confidence = q_min_confidence rq, pad_thickness = q_pad_thickness rq,
                border_color = bc, text_scale = q_text_scale rq, text_thickness = q_text_thickness rq,
                annotation_color = ac, background_color = bgc, bg_opacity = q_bg_opacity rq\<rparr>"
  obtain out where out: "annotate_image (lib e) st (names_of e (detector r)) img (detect e (detector r) img) = Inr out"
    using annotate_image_Inr [OF assms(10) w, of st "names_of e (detector r)" "detect e (detector r) img"]
      assms(4,6,8,9,12) by (auto simp: st_def)
  obtain bytes where "imencode e out = Encoded bytes" using assms(11) by blast
  then show ?thesis using d out assms(3,5,7) by (simp add: processar_resume_def Let_def st_def)
qed

section \<open>Properties of the service\<close>

text \<open>
  C15: The border thickness is not validated: a request with a negative \<open>pad_thickness\<close>, a readable upload and well-formed colours fails with HTTP 500 at \<open>copyMakeBorder\<close>, after its model switch, which persists.
\<close>

theorem negative_pad_500:
  assumes "processar_start e rq r = Inr r'" "decode_upload (image_file rq) = Inr img"
    and "parse_color (q_pad_color rq) = Inr bc" "parse_color (q_text_color rq) = Inr ac"
    and "parse_color (q_bg_color rq) = Inr bgc" "q_pad_thickness rq < 0"
  shows "processar_imagem e rq r = (HttpError 500, r')"
proof -
  have "\<forall>b. copy_make_border (q_pad_thickness rq) bc img \<noteq> Inr b"
    using assms(6) copy_make_border_Inr_iff by auto
  then obtain err where "copy_make_border (q_pad_thickness rq) bc img = Inl err"
    by (cases "copy_make_border (q_pad_thickness rq) bc img") auto
  then show ?thesis using assms(1-5)
    by (simp add: processar_imagem_def processar_resume_def Let_def annotate_image_def)
qed

theorem negative_pad_500_witness:
  "processar_start sample_env ((default_request (10, Some (Arr3 1 [ [(1, 2, 3)] ])))\<lparr>q_pad_thickness := -1\<rparr>) init_registry =
     Inr init_registry \<and>
   decode_upload (image_file ((default_request (10, Some (Arr3 1 [ [(1, 2, 3)] ])))\<lparr>q_pad_thickness := -1\<rparr>)) =
     Inr \<lparr>cols = 1, pix = [ [(3, 2, 1)] ]\<rparr> \<and>
   q_pad_thickness ((default_request (10, Some (Arr3 1 [ [(1, 2, 3)] ])))\<lparr>q_pad_thickness := -1\<rparr>) < 0 \<and>
   processar_imagem sample_env ((default_request (10, Some (Arr3 1 [ [(1, 2, 3)] ])))\<lparr>q_pad_thickness := -1\<rparr>) init_registry =
     (HttpError 500, init_registry)"
proof -
  have s: "processar_start sample_env ((default_request (10, Some (Arr3 1 [ [(1, 2, 3)] ])))\<lparr>q_pad_thickness := -1\<rparr>) init_registry =
     Inr init_registry"
    by (simp add: processar_start_def registry_unfold default_request_def init_registry_def)
  have d: "decode_upload (image_file ((default_request (10, Some (Arr3 1 [ [(1, 2, 3)] ])))\<lparr>q_pad_thickness := -1\<rparr>)) =
     Inr \<lparr>cols = 1, pix = [ [(3, 2, 1)] ]\<rparr>"
    by (simp add: decode_upload_def default_request_def)
  have c: "parse_color (q_pad_color ((default_request (10, Some (Arr3 1 [ [(1, 2, 3)] ])))\<lparr>q_pad_thickness := -1\<rparr>)) = Inr [50, 50, 50]"
    "parse_color (q_text_color ((default_request (10, Some (Arr3 1 [ [(1, 2, 3)] ])))\<lparr>q_pad_thickness := -1\<rparr>)) = Inr [255, 255, 255]"
    "parse_color (q_bg_color ((default_request (10, Some (Arr3 1 [ [(1, 2, 3)] ])))\<lparr>q_pad_thickness := -1\<rparr>)) = Inr [0, 0, 0]"
    by (simp_all add: default_request_def default_colours)
  have n: "q_pad_thickness ((default_request (10, Some (Arr3 1 [ [(1, 2, 3)] ])))\<lparr>q_pad_thickness := -1\<rparr>) < 0" by simp
  show ?thesis using negative_pad_500 [OF s d c n] s d n by simp
qed

text \<open>
  C16: The unguarded global detector is a real hazard for uploads Starlette spools to disk (more than 1 MiB): from the start state, two such requests selecting different models can interleave at the \<open>await\<close> of line 63 so that the first one resumes and runs detection with the detector the second one loaded.
\<close>

theorem interleaving_swaps_detector:
  fixes up up' :: upload
  assumes "avail e ''yolov8s.pt''" "avail e ''yolov8m.pt''"
    and "spool_max_size < fst up" "spool_max_size < fst up'"
  shows "\<exists>s r. service_steps e (service_init [(default_request up)\<lparr>selected_model := ''yolov8s''\<rparr>,
                                          (default_request up')\<lparr>selected_model := ''yolov8m''\<rparr>]) s \<and>
           reqs s ! 0 = Answered (processar_resume e ((default_request up)\<lparr>selected_model := ''yolov8s''\<rparr>) r) \<and>
           current_model r = ''yolov8m'' \<and> weights (detector r) = ''yolov8m.pt''"
proof -
  let ?A = "(default_request up)\<lparr>selected_model := ''yolov8s''\<rparr>"
  let ?B = "(default_request up')\<lparr>selected_model := ''yolov8m''\<rparr>"
  define r1 where "r1 = \<lparr>current_model = ''yolov8s'', detector = YOLO ''yolov8s.pt'' 1, loads = 2\<rparr>"
  define r2 where "r2 = \<lparr>current_model = ''yolov8m'', detector = YOLO ''yolov8m.pt'' 2, loads = 3\<rparr>"
  have mA: "\<not> upload_in_memory ?A" and mB: "\<not> upload_in_memory ?B"
    using assms(3,4) by (simp_all add: upload_in_memory_def default_request_def)
  have s1: "processar_start e ?A init_registry = Inr r1"
    using assms(1) by (simp add: processar_start_def registry_unfold init_registry_def r1_def)
  have s2: "processar_start e ?B r1 = Inr r2"
    using assms(2) by (simp add: processar_start_def registry_unfold r2_def r1_def)
  let ?s3 = "\<lparr>reg = r2, reqs = [Answered (processar_resume e ?A r2), Suspended ?B]\<rparr>"
  have "service_steps e (service_init [?A, ?B]) ?s3"
  proof (rule start_step [where i = 0 and rq = ?A and r' = r1])
    show "service_steps e \<lparr>reg = r1, reqs = (reqs (service_init [?A, ?B]))[0 := Suspended ?A]\<rparr> ?s3"
    proof (rule start_step [where i = 1 and rq = ?B and r' = r2])
      show "service_steps e \<lparr>reg = r2, reqs = (reqs \<lparr>reg = r1, reqs = (reqs (service_init [?A, ?B]))[0 := Suspended ?A]\<rparr>)[1 := Suspended ?B]\<rparr> ?s3"
        by (rule resume_step [where i = 0 and rq = ?A]) (auto simp: service_init_def intro: service_steps.refl)
    qed (use s2 mB in \<open>simp_all add: service_init_def\<close>)
  qed (use s1 mA in \<open>simp_all add: service_init_def\<close>)
  then show ?thesis
    by (intro exI [of _ ?s3] exI [of _ r2]) (simp add: r2_def)
qed

theorem interleaving_swaps_detector_witness:
  "avail sample_env ''yolov8s.pt'' \<and> avail sample_env ''yolov8m.pt'' \<and>
   spool_max_size < fst (2000000::nat, None :: np_image option) \<and>
   (\<exists>s r. service_steps sample_env (service_init [(default_request (2000000, None))\<lparr>selected_model := ''yolov8s''\<rparr>,
                                          (default_request (2000000, None))\<lparr>selected_model := ''yolov8m''\<rparr>]) s \<and>
      reqs s ! 0 = Answered (processar_resume sample_env ((default_request (2000000, None))\<lparr>selected_model := ''yolov8s''\<rparr>) r) \<and>
      current_model r = ''yolov8m'' \<and> weights (detector r) = ''yolov8m.pt'')"
proof -
  have a: "avail sample_env ''yolov8s.pt''" "avail sample_env ''yolov8m.pt''" by (simp_all add: sample_env_def)
  have m: "spool_max_size < fst (2000000::nat, None :: np_image option)" by (simp add: spool_max_size_def)
  show ?thesis using interleaving_swaps_detector [OF a m m] a m by blast
qed

text \<open>
  C17: Run alone, a request detects with the model it selected: its model switch leaves the registry on the selected name with a detector loaded from that name's weight file, and the rest of the handler runs on that registry.
\<close>

theorem processar_alone_uses_selected:
  assumes "reg_inv r" "processar_start e rq r = Inr r'"
  shows "processar_imagem e rq r = (processar_resume e rq r', r') \<and>
         model_files (selected_model rq) = Some (weights (detector r'))"
  using processar_start_Inr [OF assms] assms(2) by (simp add: processar_imagem_def)

theorem processar_alone_uses_selected_witness:
  "reg_inv init_registry \<and>
   processar_start sample_env (default_request (0, None)) init_registry = Inr init_registry \<and>
   processar_imagem sample_env (default_request (0, None)) init_registry =
     (processar_resume sample_env (default_request (0, None)) init_registry, init_registry) \<and>
   model_files (selected_model (default_request (0, None))) = Some (weights (detector init_registry))"
proof -
  have s: "processar_start sample_env (default_request (0, None)) init_registry = Inr init_registry"
    by (simp add: processar_start_def registry_unfold default_request_def init_registry_def)
  show ?thesis using processar_alone_uses_selected [OF reg_inv_init s] reg_inv_init s by simp
qed

text \<open>
  C18: A model chosen with \<open>mudar_modelo\<close> does not persist: the next request that leaves out \<open>selected_model\<close> switches back to \<open>yolov8n\<close> and pays one more load.
\<close>

theorem default_model_reverts:
  assumes "avail e ''yolov8x.pt''" "avail e ''yolov8n.pt''"
    and "r1 = reg_step (avail e) r (MudarModelo ''yolov8x'')"
  shows "current_model r1 = ''yolov8x'' \<and>
         snd (processar_imagem e (default_request up) r1) =
           \<lparr>current_model = ''yolov8n'', detector = YOLO ''yolov8n.pt'' (loads r1), loads = Suc (loads r1)\<rparr>"
proof -
  have c: "current_model r1 = ''yolov8x''"
    using reg_step_mudar_current [of "''yolov8x''" "avail e" r] assms
    by (simp add: model_names_def model_files_def model_table_def)
  then show ?thesis
    using assms(2) by (cases r1) (simp add: processar_imagem_def processar_start_def registry_unfold default_request_def)
qed

theorem default_model_reverts_witness:
  "avail sample_env ''yolov8x.pt'' \<and> avail sample_env ''yolov8n.pt'' \<and>
   reg_step (avail sample_env) init_registry (MudarModelo ''yolov8x'') =
     \<lparr>current_model = ''yolov8x'', detector = YOLO ''yolov8x.pt'' 1, loads = 2\<rparr> \<and>
   current_model \<lparr>current_model = ''yolov8x'', detector = YOLO ''yolov8x.pt'' 1, loads = 2\<rparr> = ''yolov8x'' \<and>
   snd (processar_imagem sample_env (default_request (0, None))
          \<lparr>current_model = ''yolov8x'', detector = YOLO ''yolov8x.pt'' 1, loads = 2\<rparr>) =
     \<lparr>current_model = ''yolov8n'', detector = YOLO ''yolov8n.pt'' 2, loads = 3\<rparr>"
proof -
  have a: "avail sample_env ''yolov8x.pt''" "avail sample_env ''yolov8n.pt''" by (simp_all add: sample_env_def)
  have r: "\<lparr>current_model = ''yolov8x'', detector = YOLO ''yolov8x.pt'' 1, loads = 2\<rparr> =
      reg_step (avail sample_env) init_registry (MudarModelo ''yolov8x'')"
    by (simp add: mudar_modelo_def registry_unfold init_registry_def sample_env_def)
  show ?thesis using default_model_reverts [OF a r, of "(0, None)"] a r [symmetric] by simp
qed

text \<open>
  C24: An upload PIL cannot open, and an image PIL opens as a 2-D or 2-channel array (grayscale, palette, LA), both end in an uncaught exception: HTTP 500, not a structured decode error.
\<close>

theorem unsupported_upload_500:
  "snd (image_file rq) \<in> {None, Some ArrOther} \<Longrightarrow> processar_resume e rq r = HttpError 500"
  by (auto simp: processar_resume_def decode_upload_def Let_def)

theorem unsupported_upload_500_witness:
  "snd (image_file (default_request (10, Some ArrOther))) \<in> {None, Some ArrOther} \<and>
   processar_resume sample_env (default_request (10, Some ArrOther)) init_registry = HttpError 500"
proof -
  have h: "snd (image_file (default_request (10, Some ArrOther))) \<in> {None, Some ArrOther}" by (simp add: default_request_def)
  show ?thesis using unsupported_upload_500 [OF h] h by simp
qed

text \<open>
  C25: A malformed colour string fails the request with HTTP 500 only after the model switch: the switched registry stays.
\<close>

theorem bad_colour_after_switch:
  assumes "processar_start e rq r = Inr r'" "decode_upload (image_file rq) = Inr img"
    and "parse_color (q_pad_color rq) = Inl ValueError"
  shows "processar_imagem e rq r = (HttpError 500, r')"
  using assms by (simp add: processar_imagem_def processar_resume_def Let_def)

theorem bad_colour_after_switch_witness:
  "processar_start sample_env ((default_request (10, Some (Arr3 1 [ [(1, 2, 3)] ])))\<lparr>selected_model := ''yolov8s'', q_pad_color := ''255,0,x''\<rparr>) init_registry =
     Inr \<lparr>current_model = ''yolov8s'', detector = YOLO ''yolov8s.pt'' 1, loads = 2\<rparr> \<and>
   decode_upload (image_file ((default_request (10, Some (Arr3 1 [ [(1, 2, 3)] ])))\<lparr>selected_model := ''yolov8s'', q_pad_color := ''255,0,x''\<rparr>)) =
     Inr \<lparr>cols = 1, pix = [ [(3, 2, 1)] ]\<rparr> \<and>
   parse_color (q_pad_color ((default_request (10, Some (Arr3 1 [ [(1, 2, 3)] ])))\<lparr>selected_model := ''yolov8s'', q_pad_color := ''255,0,x''\<rparr>)) = Inl ValueError \<and>
   processar_imagem sample_env ((default_request (10, Some (Arr3 1 [ [(1, 2, 3)] ])))\<lparr>selected_model := ''yolov8s'', q_pad_color := ''255,0,x''\<rparr>) init_registry =
     (HttpError 500, \<lparr>current_model = ''yolov8s'', detector = YOLO ''yolov8s.pt'' 1, loads = 2\<rparr>)"
proof -
  have s: "processar_start sample_env ((default_request (10, Some (Arr3 1 [ [(1, 2, 3)] ])))\<lparr>selected_model := ''yolov8s'', q_pad_color := ''255,0,x''\<rparr>) init_registry =
     Inr \<lparr>current_model = ''yolov8s'', detector = YOLO ''yolov8s.pt'' 1, loads = 2\<rparr>"
    by (simp add: processar_start_def registry_unfold init_registry_def sample_env_def default_request_def)
  have d: "decode_upload (image_file ((default_request (10, Some (Arr3 1 [ [(1, 2, 3)] ])))\<lparr>selected_model := ''yolov8s'', q_pad_color := ''255,0,x''\<rparr>)) =
     Inr \<lparr>cols = 1, pix = [ [(3, 2, 1)] ]\<rparr>"
    by (simp add: decode_upload_def default_request_def)
  have p: "parse_color (q_pad_color ((default_request (10, Some (Arr3 1 [ [(1, 2, 3)] ])))\<lparr>selected_model := ''yolov8s'', q_pad_color := ''255,0,x''\<rparr>)) = Inl ValueError"
    by code_simp
  show ?thesis using bad_colour_after_switch [OF s d p] s d p by simp
qed

text \<open>
  C26: Every request the Streamlit client can send (values within its widgets' ranges) passes the model switch when the weights load.
\<close>

theorem ui_request_accepted:
  "ui_valid u \<Longrightarrow> (\<forall>p. avail e p) \<Longrightarrow> \<exists>r'. processar_start e (ui_request u up) r = Inr r'"
  by (cases "ui_model u = current_model r")
     (auto simp: ui_valid_def ui_request_def default_request_def processar_start_def registry_unfold)

theorem ui_request_accepted_witness:
  "ui_valid ui_defaults \<and> (\<forall>p. avail sample_env p) \<and>
   (\<exists>r'. processar_start sample_env (ui_request ui_defaults (0, None)) init_registry = Inr r')"
proof -
  have u: "ui_valid ui_defaults" by (simp add: ui_valid_def ui_defaults_def)
  have a: "\<forall>p. avail sample_env p" by (simp add: sample_env_def)
  show ?thesis using ui_request_accepted [OF u a, of "(0, None)" init_registry] u a by blast
qed



text \<open>
  C30: End to end: when the weight files load, the encoder succeeds, the drawing library keeps the canvas' shape and the class names cover every detected class, a press of the button with an RGB upload of any size and any widget values the client allows sends the client's query and shows the processed image.
\<close>

theorem client_shows_processed_image:
  assumes "ui_valid u" "\<forall>p. avail e p" "\<forall>im. \<exists>b. imencode e im = Encoded b" "lib_ok (lib e)"
    and "list_all (\<lambda>row. length row = w) px"
    and "\<forall>h im. list_all (\<lambda>b. names_of e h (trunc_rat (b_cls b)) \<noteq> None) (concat (detect e h im))"
  shows "\<exists>bytes. ui_script u (Some (n, Some (Arr3 w px))) True (\<lambda>rq. fst (processar_imagem e rq r)) =
           \<lparr>sent = Some (ui_request u (n, Some (Arr3 w px))), shown_original = True, outcome = Some (ShowsImage bytes)\<rparr>"
proof -
  let ?rq = "ui_request u (n, Some (Arr3 w px))"
  obtain r' where s: "processar_start e ?rq r = Inr r'"
    using assms(1,2) by (cases "ui_model u = current_model r")
       (auto simp: ui_valid_def ui_request_def default_request_def processar_start_def registry_unfold)
  obtain bytes where j: "processar_resume e ?rq r' = JpegStream bytes"
    using processar_resume_jpeg [where rq = ?rq and r = r' and bc = "[50, 50, 50]" and ac = "[255, 255, 255]"
        and bgc = "[0, 0, 0]", OF _ assms(5) _ _ _ _ _ _ _ assms(4,3,6)] assms(1)
    by (auto simp: ui_request_def default_request_def default_colours ui_valid_def)
  show ?thesis using s j by (simp add: ui_script_def processar_imagem_def ui_handle_def)
qed

theorem client_shows_processed_image_witness:
  "ui_valid ui_defaults \<and> (\<forall>p. avail sample_env p) \<and> (\<forall>im. \<exists>b. imencode sample_env im = Encoded b) \<and>
   lib_ok (lib sample_env) \<and> list_all (\<lambda>row. length row = 1) [ [(1::8 word, 2::8 word, 3::8 word)] ] \<and>
   (\<forall>h im. list_all (\<lambda>b. names_of sample_env h (trunc_rat (b_cls b)) \<noteq> None) (concat (detect sample_env h im))) \<and>
   (\<exists>bytes. ui_script ui_defaults (Some (2000, Some (Arr3 1 [ [(1, 2, 3)] ]))) True
        (\<lambda>rq. fst (processar_imagem sample_env rq init_registry)) =
      \<lparr>sent = Some (ui_request ui_defaults (2000, Some (Arr3 1 [ [(1, 2, 3)] ]))), shown_original = True,
       outcome = Some (ShowsImage bytes)\<rparr>)"
proof -
  have h: "ui_valid ui_defaults" "\<forall>p. avail sample_env p" "\<forall>im. \<exists>b. imencode sample_env im = Encoded b"
    "lib_ok (lib sample_env)" "list_all (\<lambda>row. length row = 1) [ [(1::8 word, 2::8 word, 3::8 word)] ]"
    "\<forall>h im. list_all (\<lambda>b. names_of sample_env h (trunc_rat (b_cls b)) \<noteq> None) (concat (detect sample_env h im))"
    by (simp_all add: ui_valid_def ui_defaults_def sample_env_def lib_ok_def sample_lib_def)
  show ?thesis using client_shows_processed_image [OF h, of 2000 init_registry] h by blast
qed

end
